theory Spec2Isabelle
  imports Complex_Main "HOL-Library.Sublist" "HOL-Library.Log_Nat"
begin

section \<open>Go primitives used by the bundle TUI and the remote bundle source\<close>

text \<open>
  A Go panic is a value: every slice index of the source is checked, \<open>panic(0)\<close> of
  \<open>GetDeployedPackage\<close> has its own constructor, and so has the panic of the digest
  library on a digest without a separator.
\<close>

datatype panic = IndexOutOfRange | Panic0 | NoDigestSeparator

type_synonym error = string

text \<open>\<open>xs[i]\<close> on a Go slice with an \<open>int\<close> index: out of range panics.\<close>

definition index :: "'a list \<Rightarrow> int \<Rightarrow> panic + 'a" where
  "index xs i = (if 0 \<le> i \<and> i < int (length xs) then Inr (xs ! nat i) else Inl IndexOutOfRange)"

definition inRange :: "'a list \<Rightarrow> int \<Rightarrow> bool" where
  "inRange xs i = (0 \<le> i \<and> i < int (length xs))"

text \<open>
  \<open>strings.Split(s, sep)\<close> for a separator of one byte: the field being read is closed
  at each separator and at the end of the string, so there is always at least one
  field.
\<close>

fun splitFrom :: "string \<Rightarrow> char \<Rightarrow> string \<Rightarrow> string list" where
  "splitFrom [] sep field = [rev field]"
| "splitFrom (c # cs) sep field =
     (if c = sep then rev field # splitFrom cs sep [] else splitFrom cs sep (c # field))"

definition Split :: "string \<Rightarrow> char \<Rightarrow> string list" where
  "Split s sep = splitFrom s sep []"

text \<open>
  \<open>strconv.Atoi\<close>: an optional sign, then one or more decimal digits, within the range
  of a 64-bit \<open>int\<close>; anything else is an error (\<open>None\<close>).
\<close>

definition digitVal :: "char \<Rightarrow> nat option" where
  "digitVal c =
     (let n = (of_char c :: nat)
      in if of_char CHR ''0'' \<le> n \<and> n \<le> of_char CHR ''9'' then Some (n - of_char CHR ''0'') else None)"

fun parseDigits :: "string \<Rightarrow> nat \<Rightarrow> nat option" where
  "parseDigits [] acc = Some acc"
| "parseDigits (c # cs) acc =
     (case digitVal c of None \<Rightarrow> None | Some d \<Rightarrow> parseDigits cs (10 * acc + d))"

definition Atoi :: "string \<Rightarrow> int option" where
  "Atoi s =
     (case s of
        [] \<Rightarrow> None
      | c # cs \<Rightarrow>
          (let neg = (c = CHR ''-'');
               ds = (if c = CHR ''-'' \<or> c = CHR ''+'' then cs else s)
           in if ds = [] then None
              else (case parseDigits ds 0 of
                      None \<Rightarrow> None
                    | Some n \<Rightarrow>
                        (let v = (if neg then - int n else int n)
                         in if - (2 ^ 63) \<le> v \<and> v < 2 ^ 63 then Some v else None))))"

text \<open>
  \<open>float64\<close> arithmetic as far as the progress percentages need it: \<open>float64 q\<close> is the
  binary64 number nearest to the rational \<open>q\<close>, ties to the even mantissa, for values
  in the normal range (no overflow, no subnormal numbers: the percentages are
  quotients of counts and sizes). An operation on two \<open>float64\<close> values is the exact
  operation followed by \<open>float64\<close>. \<open>int64 x\<close> is the conversion of a \<open>float64\<close> to
  \<open>int64\<close>: truncation towards zero; \<open>None\<close> outside the range of \<open>int64\<close>, where Go
  leaves the result to the implementation.
\<close>

definition pow2 :: "int \<Rightarrow> rat" where
  "pow2 e = (if 0 \<le> e then 2 ^ nat e else 1 / 2 ^ nat (- e))"

text \<open>For \<open>q > 0\<close>, the exponent \<open>e\<close> with \<open>2 ^ e \<le> q < 2 ^ (e + 1)\<close>.\<close>

definition floorLog2 :: "rat \<Rightarrow> int" where
  "floorLog2 q =
     (let d = bitlen (fst (quotient_of q)) - bitlen (snd (quotient_of q))
      in if pow2 d \<le> q then d else d - 1)"

definition roundHalfEven :: "rat \<Rightarrow> int" where
  "roundHalfEven q =
     (let f = \<lfloor>q\<rfloor>; d = q - of_int f
      in if d < 1 / 2 then f else if 1 / 2 < d then f + 1 else if even f then f else f + 1)"

definition float64 :: "rat \<Rightarrow> rat" where
  "float64 q =
     (if q = 0 then 0
      else (let a = \<bar>q\<bar>; e = floorLog2 a - 52;
                r = of_int (roundHalfEven (a / pow2 e)) * pow2 e
            in if q < 0 then - r else r))"

definition int64 :: "rat \<Rightarrow> int option" where
  "int64 x =
     (let t = (if 0 \<le> x then \<lfloor>x\<rfloor> else \<lceil>x\<rceil>)
      in if - (2 ^ 63) \<le> t \<and> t < 2 ^ 63 then Some t else None)"

section \<open>The deployed-state query (tui.go, GetDeployedPackage)\<close>

text \<open>
  \<open>types.DeployedPackage\<close> of the packaging library: only the list of deployed
  components is read by the TUI.
\<close>

record DeployedPackage =
  Name :: string
  DeployedComponents :: "string list"

text \<open>
  The cluster as the function sees it. \<open>GetSecret namespace name\<close> is \<open>None\<close> when the
  client returns an error (the secret does not exist, the cluster cannot be reached),
  otherwise the secret's \<open>Data\<close> map. \<open>Unmarshal\<close> is \<open>json.Unmarshal\<close> into a
  \<open>*DeployedPackage\<close>: \<open>None\<close> is a decode error, \<open>Some None\<close> the JSON value
  \<open>null\<close> (the pointer stays nil). \<open>ZarfPackagePrefix\<close> is the library's constant.
\<close>

record k8s =
  GetSecret :: "string \<Rightarrow> string \<Rightarrow> (string \<rightharpoonup> string) option"
  Unmarshal :: "string \<Rightarrow> DeployedPackage option option"
  ZarfPackagePrefix :: string

text \<open>A missing key of a Go map of byte slices reads as the nil slice.\<close>

definition GetDeployedPackage :: "k8s \<Rightarrow> string \<Rightarrow> panic + DeployedPackage option" where
  "GetDeployedPackage cl packageName =
     (case GetSecret cl ''zarf'' (ZarfPackagePrefix cl @ packageName) of
        None \<Rightarrow> Inr None
      | Some secretData \<Rightarrow>
          (case Unmarshal cl (case secretData ''data'' of None \<Rightarrow> [] | Some bs \<Rightarrow> bs) of
             None \<Rightarrow> Inl Panic0
           | Some deployedPackage \<Rightarrow> Inr deployedPackage))"

section \<open>The TUI model and its Update function (tui.go)\<close>

text \<open>
  The progress bar of the terminal library: \<open>SetPercent p\<close> stores \<open>p\<close> clamped to
  \<open>[0, 1]\<close> and \<open>Percent\<close> reads it back. Percentages are \<open>float64\<close> in the source; they
  are exact rationals here, which agrees with the source on the quotient of two
  counts being \<open>1\<close> exactly when the counts are equal.
\<close>

record progress_Model =
  targetPercent :: rat

definition SetPercent :: "rat \<Rightarrow> progress_Model \<Rightarrow> progress_Model" where
  "SetPercent p b = b\<lparr>targetPercent := max 0 (min 1 p)\<rparr>"

definition Percent :: "progress_Model \<Rightarrow> rat" where
  "Percent b = targetPercent b"

definition progress_New :: progress_Model where
  "progress_New = \<lparr>targetPercent = 0\<rparr>"

datatype style = Color205 | CheckMark | CrossMark

datatype frames = Dot | Blank

record spinner_Model =
  Frames :: frames
  Style :: style
  ticks :: nat

definition spinner_New :: spinner_Model where
  "spinner_New = \<lparr>Frames = Dot, Style = Color205, ticks = 0\<rparr>"

definition spinner_Update :: "spinner_Model \<Rightarrow> spinner_Model" where
  "spinner_Update s = s\<lparr>ticks := Suc (ticks s)\<rparr>"

record Model =
  bundleYAML :: string
  progressBars :: "progress_Model list"
  pkgNames :: "string list"
  pkgIdx :: int
  totalComponentsPerPkg :: "int list"
  totalPkgs :: int
  spinners :: "spinner_Model list"
  confirmed :: bool
  complete :: "bool list"
  done' :: bool

text \<open>\<open>InitModel\<close>: \<open>confirm\<close> is \<open>config.CommonOptions.Confirm\<close>.\<close>

definition InitModel :: "bool \<Rightarrow> string \<Rightarrow> Model" where
  "InitModel confirm yaml =
     \<lparr>bundleYAML = yaml, progressBars = [], pkgNames = [], pkgIdx = 0,
      totalComponentsPerPkg = [], totalPkgs = 0, spinners = [],
      confirmed = confirm, complete = [], done' = False\<rparr>"

text \<open>
  The messages. \<open>FrameMsg moving\<close> is a frame of the animation of a bar; \<open>moving\<close> says
  whether the animation goes on after it: the bar then returns the command of its next
  frame, and a nil command once it is at rest or when the frame is not its own.
\<close>

datatype Msg =
    FrameMsg bool
  | TickMsg
  | KeyMsg string
  | OperationMsg string
  | StringMsg string
  | OtherMsg

text \<open>
  The commands \<open>Update\<close> hands back to the runtime. \<open>PrintlnSuccess name\<close> prints the
  rendered line "Package name deployed" with its check mark; \<open>PrintlnLine\<close> the rule of
  \<open>WIDTH\<close> dashes; \<open>DeployCmd\<close> is the closure that runs \<open>Deploy\<close>; \<open>SendOperation\<close> the
  closure that returns an operation message; \<open>NilCmd\<close> a nil command.
\<close>

datatype Cmd =
    NilCmd
  | Quit
  | Pause
  | TickCmd
  | FrameCmd
  | SpinnerTickCmd
  | PrintlnLine
  | PrintlnSuccess string
  | DeployCmd
  | SendOperation string

datatype TeaCmd = Single Cmd | Sequence "Cmd list" | Batch "Cmd list"

definition DeployOp :: string where
  "DeployOp = ''deploy''"

text \<open>The state of the package \<open>tui\<close>: the model and the package variable \<open>resetProgress\<close>.\<close>

type_synonym tui = "Model \<times> bool"

text \<open>The branch of \<open>select\<close> taken when the fatal channel has a sender waiting.\<close>

definition onFatal :: "tui \<Rightarrow> panic + (tui \<times> TeaCmd)" where
  "onFatal s =
     (case s of (m, reset) \<Rightarrow>
        if \<not> inRange (spinners m) (pkgIdx m) then Inl IndexOutOfRange
        else
          (let i = nat (pkgIdx m);
               sp = spinner_Update ((spinners m ! i)\<lparr>Frames := Blank, Style := CrossMark\<rparr>)
           in Inr ((m\<lparr>spinners := (spinners m)[i := sp]\<rparr>, reset),
                   Sequence [SpinnerTickCmd, Pause, Quit])))"

definition onFrame :: "bool \<Rightarrow> tui \<Rightarrow> panic + (tui \<times> TeaCmd)" where
  "onFrame moving s =
     (case s of (m, reset) \<Rightarrow>
        if \<not> inRange (progressBars m) (pkgIdx m) then Inl IndexOutOfRange
        else Inr ((m, reset), Single (if moving then FrameCmd else NilCmd)))"

text \<open>The loop that appends one success line per package, \<open>i = 0 .. totalPkgs - 1\<close>.\<close>

fun successLoop :: "string list \<Rightarrow> nat \<Rightarrow> nat \<Rightarrow> Cmd list \<Rightarrow> panic + Cmd list" where
  "successLoop names i 0 acc = Inr acc"
| "successLoop names i (Suc n) acc =
     (if i < length names then successLoop names (Suc i) n (acc @ [PrintlnSuccess (names ! i)])
      else Inl IndexOutOfRange)"

text \<open>The tick branch when the current package's completion flag is set.\<close>

definition onTickComplete :: "tui \<Rightarrow> panic + (tui \<times> TeaCmd)" where
  "onTickComplete s =
     (case s of (m, reset) \<Rightarrow>
        if \<not> inRange (progressBars m) (pkgIdx m) then Inl IndexOutOfRange
        else if \<not> inRange (spinners m) (pkgIdx m) then Inl IndexOutOfRange
        else
          (let i = nat (pkgIdx m);
               bar = SetPercent 100 (progressBars m ! i);
               sp = spinner_Update ((spinners m ! i)\<lparr>Frames := Blank, Style := CheckMark\<rparr>);
               m1 = m\<lparr>progressBars := (progressBars m)[i := bar],
                      spinners := (spinners m)[i := sp]\<rparr>
           in if pkgIdx m1 = totalPkgs m1 - 1 then
                (case successLoop (pkgNames m1) 0 (nat (totalPkgs m1))
                        [FrameCmd, SpinnerTickCmd, TickCmd, PrintlnLine] of
                   Inl p \<Rightarrow> Inl p
                 | Inr successCmds \<Rightarrow>
                     Inr ((m1\<lparr>done' := True\<rparr>, reset), Sequence (successCmds @ [Quit])))
              else Inr ((m1, reset), Sequence [FrameCmd, SpinnerTickCmd])))"

text \<open>
  The progress computation of a tick (the \<open>if\<close> on \<open>totalComponentsPerPkg\<close>): the state
  after it and the progress command.
\<close>

definition tickProgress :: "k8s \<Rightarrow> tui \<Rightarrow> panic + (tui \<times> Cmd)" where
  "tickProgress cl s =
     (case s of (m, reset) \<Rightarrow>
        if \<not> (int (length (totalComponentsPerPkg m)) > pkgIdx m) then Inr ((m, reset), NilCmd)
        else if \<not> inRange (totalComponentsPerPkg m) (pkgIdx m) then Inl IndexOutOfRange
        else if \<not> (totalComponentsPerPkg m ! nat (pkgIdx m) > 0) then Inr ((m, reset), NilCmd)
        else if \<not> inRange (pkgNames m) (pkgIdx m) then Inl IndexOutOfRange
        else
          (let i = nat (pkgIdx m) in
           case GetDeployedPackage cl (pkgNames m ! i) of
             Inl p \<Rightarrow> Inl p
           | Inr deployedPkg \<Rightarrow>
               if deployedPkg \<noteq> None \<and> \<not> reset then
                 (if \<not> inRange (progressBars m) (pkgIdx m) then Inl IndexOutOfRange
                  else
                    (let bar = SetPercent
                                 (of_nat (length (DeployedComponents (the deployedPkg)))
                                    / of_int (totalComponentsPerPkg m ! i))
                                 (progressBars m ! i);
                         m1 = m\<lparr>progressBars := (progressBars m)[i := bar]\<rparr>
                     in if Percent bar = 1 then
                          (if \<not> inRange (spinners m1) (pkgIdx m1) then Inl IndexOutOfRange
                           else Inr ((m1\<lparr>spinners := (spinners m1)
                                          [i := (spinners m1 ! i)\<lparr>Frames := Blank, Style := CheckMark\<rparr>]\<rparr>,
                                      reset), FrameCmd))
                        else Inr ((m1, reset), FrameCmd)))
               else
                 (if \<not> inRange (progressBars m) (pkgIdx m) then Inl IndexOutOfRange
                  else
                    (let bar = SetPercent 0 (progressBars m ! i);
                         m1 = m\<lparr>progressBars := (progressBars m)[i := bar]\<rparr>
                     in Inr ((m1,
                              (if deployedPkg \<noteq> None
                                  \<and> length (DeployedComponents (the deployedPkg)) \<ge> 1
                               then False else reset)),
                             FrameCmd)))))"

definition onTick :: "k8s \<Rightarrow> tui \<Rightarrow> panic + (tui \<times> TeaCmd)" where
  "onTick cl s =
     (case s of (m, reset) \<Rightarrow>
        if int (length (complete m)) > pkgIdx m \<and> \<not> inRange (complete m) (pkgIdx m)
        then Inl IndexOutOfRange
        else if int (length (complete m)) > pkgIdx m \<and> complete m ! nat (pkgIdx m)
        then onTickComplete s
        else
          (case tickProgress cl s of
             Inl p \<Rightarrow> Inl p
           | Inr ((m1, reset1), progressCmd) \<Rightarrow>
               if length (spinners m1) > 0 then
                 (if \<not> inRange (spinners m1) (pkgIdx m1) then Inl IndexOutOfRange
                  else
                    (let i = nat (pkgIdx m1);
                         m2 = m1\<lparr>spinners := (spinners m1)[i := spinner_Update (spinners m1 ! i)]\<rparr>
                     in Inr ((m2, reset1), Sequence [progressCmd, SpinnerTickCmd, TickCmd])))
               else Inr ((m1, reset1), Sequence [progressCmd, TickCmd])))"

definition onKey :: "string \<Rightarrow> tui \<Rightarrow> panic + (tui \<times> TeaCmd)" where
  "onKey k s =
     (case s of (m, reset) \<Rightarrow>
        if k = ''y'' \<or> k = ''Y'' then
          Inr (((if \<not> confirmed m then m\<lparr>confirmed := True\<rparr> else m), reset),
               Single (SendOperation DeployOp))
        else if k = ''n'' \<or> k = ''N'' then
          Inr (((if \<not> confirmed m then m\<lparr>confirmed := False\<rparr> else m), reset), Batch [])
        else if k = ''ctrl+c'' \<or> k = ''q'' then Inr ((m, reset), Single Quit)
        else Inr ((m, reset), Batch []))"

definition onOperation :: "tui \<Rightarrow> panic + (tui \<times> TeaCmd)" where
  "onOperation s =
     (case s of (m, reset) \<Rightarrow>
        if confirmed m then Inr ((m, reset), Batch [TickCmd, DeployCmd])
        else Inr ((m, reset), Batch []))"

definition onString :: "k8s \<Rightarrow> string \<Rightarrow> tui \<Rightarrow> panic + (tui \<times> TeaCmd)" where
  "onString cl msg s =
     (case s of (m, reset) \<Rightarrow>
        (let fields = Split msg CHR '':'' in
         if hd fields = ''package'' then
           (case index fields 1 of
              Inl p \<Rightarrow> Inl p
            | Inr pkgName \<Rightarrow>
                (case GetDeployedPackage cl pkgName of
                   Inl p \<Rightarrow> Inl p
                 | Inr deployedPkg \<Rightarrow>
                     Inr ((m\<lparr>pkgNames := pkgNames m @ [pkgName]\<rparr>,
                           (if deployedPkg \<noteq> None
                               \<and> length (DeployedComponents (the deployedPkg)) \<noteq> 0
                            then True else reset)),
                          Batch [])))
         else if hd fields = ''totalComponents'' then
           (case index fields 1 of
              Inl p \<Rightarrow> Inl p
            | Inr v \<Rightarrow>
                (case Atoi v of
                   Some totalComponents \<Rightarrow>
                     Inr ((m\<lparr>totalComponentsPerPkg := totalComponentsPerPkg m @ [totalComponents]\<rparr>,
                           reset), Batch [])
                 | None \<Rightarrow> Inr ((m, reset), Batch [])))
         else if hd fields = ''totalPackages'' then
           (case index fields 1 of
              Inl p \<Rightarrow> Inl p
            | Inr v \<Rightarrow>
                (case Atoi v of
                   Some n \<Rightarrow> Inr ((m\<lparr>totalPkgs := n\<rparr>, reset), Batch [])
                 | None \<Rightarrow> Inr ((m, reset), Batch [])))
         else if hd fields = ''idx'' then
           (case index fields 1 of
              Inl p \<Rightarrow> Inl p
            | Inr v \<Rightarrow>
                (case Atoi v of
                   Some currentPkgIdx \<Rightarrow>
                     Inr ((m\<lparr>pkgIdx := currentPkgIdx,
                              progressBars := progressBars m @ [progress_New],
                              spinners := spinners m @ [spinner_New]\<rparr>, reset), Batch [])
                 | None \<Rightarrow> Inr ((m, reset), Batch [])))
         else if hd fields = ''complete'' then
           Inr ((m\<lparr>complete := complete m @ [True]\<rparr>, reset), Batch [])
         else Inr ((m, reset), Batch [])))"

text \<open>
  \<open>Model.Update\<close>. \<open>fatal\<close> says whether a send on the fatal channel is waiting when the
  \<open>select\<close> runs; \<open>cl\<close> is the cluster at that moment.
\<close>

definition Update :: "k8s \<Rightarrow> bool \<Rightarrow> Msg \<Rightarrow> tui \<Rightarrow> panic + (tui \<times> TeaCmd)" where
  "Update cl fatal msg s =
     (if fatal then onFatal s
      else (case msg of
              FrameMsg moving \<Rightarrow> onFrame moving s
            | TickMsg \<Rightarrow> onTick cl s
            | KeyMsg k \<Rightarrow> onKey k s
            | OperationMsg op \<Rightarrow> onOperation s
            | StringMsg str \<Rightarrow> onString cl str s
            | OtherMsg \<Rightarrow> Inr (s, Batch [])))"

section \<open>The deploy worker, the program loop and the deploy command (tui.go, unnamed/part_002)\<close>

text \<open>
  What the run does to the outside is a log of calls on the bundle client. The fatal
  channel is unbuffered: \<open>fatalChan\<close> holds the error of a send that waits for the
  \<open>select\<close> of \<open>Update\<close>.
\<close>

datatype effect = CallPreDeployValidation | CallConfirmBundleDeploy | CallDeploy | CallClearPaths

record World =
  log :: "effect list"
  fatalChan :: "error option"
  launched :: nat

text \<open>The bundle client: what its operations return (\<open>None\<close> is a nil error).\<close>

record bndlClient =
  DeployResult :: "error option"
  PreDeployValidationResult :: "error option"
  ConfirmBundleDeployResult :: bool

definition ClearPaths :: "World \<Rightarrow> World" where
  "ClearPaths w = w\<lparr>log := log w @ [CallClearPaths]\<rparr>"

text \<open>
  The closure \<open>deployCmd\<close> of the operation branch of \<open>Update\<close>. \<open>Deploy\<close> returns an
  error or nil; a panic inside it, which the deferred \<open>GracefulPanic\<close> handles, is not
  part of the model.
\<close>

definition deployCmd_closure :: "bndlClient \<Rightarrow> World \<Rightarrow> World" where
  "deployCmd_closure b w =
     (let w1 = w\<lparr>log := log w @ [CallDeploy]\<rparr>
      in case DeployResult b of
           None \<Rightarrow> w1
         | Some err \<Rightarrow> (ClearPaths w1)\<lparr>fatalChan := Some (''failed to deploy bundle: '' @ err)\<rparr>)"

fun hasCmd :: "Cmd \<Rightarrow> TeaCmd \<Rightarrow> bool" where
  "hasCmd c (Single d) = (c = d)"
| "hasCmd c (Sequence cs) = (c \<in> set cs)"
| "hasCmd c (Batch cs) = (c \<in> set cs)"

text \<open>
  \<open>Program.Run\<close> of the terminal runtime, as far as the command needs it. The schedule
  gives what happens in which order: \<open>Deliver cl msg\<close>, the runtime hands \<open>msg\<close> to \<open>Update\<close>
  while the cluster is \<open>cl\<close>; \<open>WorkerRuns\<close>, a deploy closure that was handed to the
  runtime runs up to its return or its send on the fatal channel. A returned command
  that holds the deploy closure hands it to the runtime; one that holds \<open>Quit\<close> ends
  the loop. \<open>Waiting\<close>: the schedule ran out before the program quit.
\<close>

datatype scheduled = Deliver k8s Msg | WorkerRuns

datatype outcome = Quitted tui | Panicked panic | Waiting tui

fun Program_Run :: "bndlClient \<Rightarrow> scheduled list \<Rightarrow> tui \<Rightarrow> World \<Rightarrow> outcome \<times> World" where
  "Program_Run b [] s w = (Waiting s, w)"
| "Program_Run b (WorkerRuns # rest) s w =
     (if 0 < launched w
      then Program_Run b rest s (deployCmd_closure b (w\<lparr>launched := launched w - 1\<rparr>))
      else Program_Run b rest s w)"
| "Program_Run b (Deliver cl msg # rest) s w =
     (case Update cl (fatalChan w \<noteq> None) msg s of
        Inl p \<Rightarrow> (Panicked p, w)
      | Inr r \<Rightarrow>
          (let w1 = w\<lparr>fatalChan := None\<rparr>;
               w2 = (if hasCmd DeployCmd (snd r) then w1\<lparr>launched := Suc (launched w1)\<rparr> else w1)
           in if hasCmd Quit (snd r) then (Quitted (fst r), w2)
              else Program_Run b rest (fst r) w2))"

text \<open>
  \<open>deployWithoutTea\<close>: \<open>message.Fatalf\<close> ends the process, so the flag of the result says
  whether the process has exited (and deferred calls are skipped).
\<close>

definition deployWithoutTea :: "bndlClient \<Rightarrow> World \<Rightarrow> World \<times> bool" where
  "deployWithoutTea b w =
     (let w1 = w\<lparr>log := log w @ [CallPreDeployValidation]\<rparr>
      in if PreDeployValidationResult b \<noteq> None then (w1, True)
         else
           (let w2 = w1\<lparr>log := log w1 @ [CallConfirmBundleDeploy]\<rparr>
            in if \<not> ConfirmBundleDeployResult b then (w2, True)
               else
                 (let w3 = w2\<lparr>log := log w2 @ [CallDeploy]\<rparr>
                  in if DeployResult b \<noteq> None then (ClearPaths w3, True)
                     else (w3, False))))"

text \<open>
  The \<open>Run\<close> function of \<open>deployCmd\<close> from the creation of the bundle client on:
  \<open>defer bndlClient.ClearPaths()\<close> runs when the function returns, and also when a
  panic of \<open>Update\<close> ends the program; what the runtime does with that panic is the
  library's and is left as the outcome \<open>ProgramPanicked\<close>. \<open>Program.Run\<close> returns a nil
  error after \<open>Quit\<close>. The model the command starts is the one of \<open>tui.go\<close>; \<open>confirm\<close> is
  \<open>config.CommonOptions.Confirm\<close>, \<open>noTea\<close> is \<open>config.CommonOptions.NoTea\<close>.
\<close>

datatype run_end = Returned World | Exited World | ProgramPanicked panic World | StillRunning World

definition deployCmd_Run :: "bool \<Rightarrow> bool \<Rightarrow> string \<Rightarrow> bndlClient \<Rightarrow> scheduled list \<Rightarrow> run_end" where
  "deployCmd_Run noTea confirm yaml b sched =
     (let w0 = \<lparr>log = [], fatalChan = None, launched = 0\<rparr>
      in if noTea then
           (case deployWithoutTea b w0 of
              (w1, exited) \<Rightarrow> if exited then Exited w1 else Returned (ClearPaths w1))
         else
           (case Program_Run b sched (InitModel confirm yaml, False) w0 of
              (Quitted s, w1) \<Rightarrow> Returned (ClearPaths w1)
            | (Panicked p, w1) \<Rightarrow> ProgramPanicked p (ClearPaths w1)
            | (Waiting s, w1) \<Rightarrow> StillRunning w1))"

definition clearPathsCalls :: "World \<Rightarrow> nat" where
  "clearPathsCalls w = length (filter (\<lambda>e. e = CallClearPaths) (log w))"

definition deployCalls :: "World \<Rightarrow> nat" where
  "deployCalls w = length (filter (\<lambda>e. e = CallDeploy) (log w))"

text \<open>Ticks delivered one after the other, each with the cluster it sees.\<close>

fun ticksRun :: "k8s list \<Rightarrow> tui \<Rightarrow> panic + tui" where
  "ticksRun [] s = Inr s"
| "ticksRun (cl # cls) s =
     (case Update cl False TickMsg s of
        Inl p \<Rightarrow> Inl p
      | Inr r \<Rightarrow> ticksRun cls (fst r))"

text \<open>Messages delivered one after the other with no fatal error waiting.\<close>

fun deliver :: "(k8s \<times> Msg) list \<Rightarrow> tui \<Rightarrow> panic + tui" where
  "deliver [] s = Inr s"
| "deliver (x # xs) s =
     (case Update (fst x) False (snd x) s of
        Inl p \<Rightarrow> Inl p
      | Inr r \<Rightarrow> deliver xs (fst r))"

section \<open>The remote bundle source (unnamed/part_001)\<close>

record Descriptor =
  MediaType :: string
  Digest :: string
  Size :: int
  Annotations :: "(string \<times> string) list"

text \<open>A Go map read: a missing key gives the empty string.\<close>

definition annotation :: "Descriptor \<Rightarrow> string \<Rightarrow> string" where
  "annotation d k = (case map_of (Annotations d) k of None \<Rightarrow> [] | Some v \<Rightarrow> v)"

text \<open>
  \<open>Digest.Encoded\<close>: the part after the separator of \<open>algorithm:hex\<close>; the library
  panics on a digest that has no separator.
\<close>

definition Encoded :: "string \<Rightarrow> panic + string" where
  "Encoded d =
     (if CHR '':'' \<in> set d then Inr (tl (dropWhile (\<lambda>c. c \<noteq> CHR '':'') d))
      else Inl NoDigestSeparator)"

record RemoteBundle =
  PkgName :: string
  PkgManifestSHA :: string
  TmpDir :: string
  isPartial :: bool

text \<open>How a call ends when it does not succeed: with a Go error, or with a panic.\<close>

datatype failure = Error error | Panic panic

text \<open>
  The registry, the cache and the local store as the function sees them. \<open>FetchRoot\<close>
  gives an error or the root manifest, read through \<open>Locate\<close> (\<open>None\<close> is the empty
  descriptor). \<open>FetchManifest\<close> gives the pair the Go call returns: the layers of the
  manifest (\<open>None\<close> is a nil manifest) and an error. \<open>oras_Copy\<close> gives the descriptors
  for which \<open>PostCopy\<close> ran, in that order, and the error of the copy. \<open>filepath_Join\<close>
  is the function of the standard library, on the list of its arguments. The last
  three fields are constants of the libraries.
\<close>

record Remote =
  FetchRoot :: "error + (string \<Rightarrow> Descriptor option)"
  FetchManifest :: "Descriptor \<Rightarrow> Descriptor list option \<times> error option"
  BlobExists :: "Descriptor \<Rightarrow> error + bool"
  cache_Exists :: "string \<Rightarrow> bool"
  cache_Use :: "string \<Rightarrow> string \<Rightarrow> error option"
  filepath_Join :: "string list \<Rightarrow> string"
  file_New :: "string \<Rightarrow> error option"
  oras_Copy :: "Descriptor list \<Rightarrow> Descriptor list \<times> error option"
  ZarfLayerMediaTypeBlob :: string
  BlobsDir :: string
  AnnotationTitle :: string

text \<open>
  What is sent to the program: \<open>Verifying p\<close> is the string \<open>verifying:p\<close>, \<open>Downloading p\<close>
  the string \<open>downloading:p\<close> and \<open>TotalComponents n\<close> the string \<open>totalComponents:n\<close>, with
  the integer printed in decimal. \<open>None\<close> is an integer that Go leaves to the
  implementation.
\<close>

datatype sent = Verifying "int option" | Downloading "int option" | TotalComponents nat

text \<open>
  \<open>int64(numLayersVerified / float64(len(pkgManifest.Layers)) * 100)\<close>, where
  \<open>numLayersVerified\<close> is a \<open>float64\<close> that counts the layers checked. A division by
  zero gives an infinity or not a number; the loop does not run then.
\<close>

definition percVerified :: "nat \<Rightarrow> nat \<Rightarrow> int option" where
  "percVerified checked declared =
     (if declared = 0 then None
      else int64 (float64 (float64 (float64 (of_nat checked) / float64 (of_nat declared)) * 100)))"

text \<open>
  \<open>int64(float64(downloadedBytes) / float64(estimatedBytes) * 100)\<close>; with no estimated
  bytes the quotient is an infinity or not a number.
\<close>

definition percDownloaded :: "int \<Rightarrow> int \<Rightarrow> int option" where
  "percDownloaded downloadedBytes estimated =
     (if estimated = 0 then None
      else int64 (float64 (float64 (float64 (of_int downloadedBytes) / float64 (of_int estimated))
                            * 100)))"

record verifyState =
  estimatedBytes :: int
  layersToPull :: "Descriptor list"
  layersInBundle :: "Descriptor list"
  numLayersVerified :: nat
  sentEvents :: "sent list"

text \<open>
  The loop over \<open>pkgManifest.Layers\<close>; \<open>nLayers\<close> is \<open>len(pkgManifest.Layers)\<close>. A failure
  comes with the state reached, since what was sent stays sent. The progress bar of
  the message library is left out: it only prints.
\<close>

fun verifyLayers ::
  "Remote \<Rightarrow> RemoteBundle \<Rightarrow> nat \<Rightarrow> Descriptor list \<Rightarrow> verifyState \<Rightarrow> (failure \<times> verifyState) + verifyState" where
  "verifyLayers rm r nLayers [] st = Inr st"
| "verifyLayers rm r nLayers (layer # rest) st =
     (case BlobExists rm layer of
        Inl err \<Rightarrow> Inl (Error err, st)
      | Inr ok \<Rightarrow>
          (let st1 = st\<lparr>numLayersVerified := Suc (numLayersVerified st)\<rparr>
           in if ok then
                (let st2 = st1\<lparr>sentEvents := sentEvents st1
                                   @ [Verifying (percVerified (numLayersVerified st1) nLayers)],
                                estimatedBytes := estimatedBytes st1 + Size layer,
                                layersInBundle := layersInBundle st1 @ [layer]\<rparr>
                 in case Encoded (Digest layer) of
                      Inl p \<Rightarrow> Inl (Panic p, st2)
                    | Inr digest \<Rightarrow>
                        if sublist (BlobsDir rm) (annotation layer (AnnotationTitle rm))
                           \<and> cache_Exists rm digest
                        then (case cache_Use rm digest
                                     (filepath_Join rm [TmpDir r, ''images'', BlobsDir rm]) of
                                Some err \<Rightarrow> Inl (Error err, st2)
                              | None \<Rightarrow> verifyLayers rm r nLayers rest st2)
                        else verifyLayers rm r nLayers rest
                               (st2\<lparr>layersToPull := layersToPull st2 @ [layer]\<rparr>))
              else verifyLayers rm r nLayers rest st1))"

text \<open>The \<open>PostCopy\<close> callback, once per copied descriptor.\<close>

fun postCopy :: "int \<Rightarrow> int \<Rightarrow> Descriptor list \<Rightarrow> sent list" where
  "postCopy downloadedBytes estimated [] = []"
| "postCopy downloadedBytes estimated (d # ds) =
     Downloading (percDownloaded (downloadedBytes + Size d) estimated)
       # postCopy (downloadedBytes + Size d) estimated ds"

text \<open>
  \<open>downloadPkgFromRemoteBundle\<close>: the source after the call, what was sent, and the two
  values the Go function returns (a nil slice is the empty list); a panic stands in
  the place of the error, the function does not return then.
\<close>

definition downloadPkgFromRemoteBundle ::
  "Remote \<Rightarrow> RemoteBundle \<Rightarrow> RemoteBundle \<times> sent list \<times> Descriptor list \<times> failure option" where
  "downloadPkgFromRemoteBundle rm r =
     (case FetchRoot rm of
        Inl err \<Rightarrow> (r, [], [], Some (Error err))
      | Inr rootManifest \<Rightarrow>
          (case rootManifest (PkgManifestSHA r) of
             None \<Rightarrow>
               (r, [], [],
                Some (Error (''package '' @ PkgManifestSHA r @ '' does not exist in this bundle'')))
           | Some d \<Rightarrow>
               (let pkgManifestDesc = d\<lparr>MediaType := ZarfLayerMediaTypeBlob rm\<rparr>
                in case FetchManifest rm pkgManifestDesc of
                     (pkgManifest, Some err) \<Rightarrow> (r, [], [], Some (Error err))
                   | (None, None) \<Rightarrow> (r, [], [], None)
                   | (Some layers, None) \<Rightarrow>
                       (case verifyLayers rm r (length layers) layers
                               \<lparr>estimatedBytes = 0, layersToPull = [pkgManifestDesc],
                                layersInBundle = [pkgManifestDesc], numLayersVerified = 0,
                                sentEvents = []\<rparr> of
                          Inl (f, st) \<Rightarrow> (r, sentEvents st, [], Some f)
                        | Inr st \<Rightarrow>
                            (case file_New rm (TmpDir r) of
                               Some err \<Rightarrow> (r, sentEvents st, [], Some (Error err))
                             | None \<Rightarrow>
                                 (case oras_Copy rm (layersToPull st) of
                                    (copied, cerr) \<Rightarrow>
                                      (let ev = sentEvents st @ postCopy 0 (estimatedBytes st) copied
                                       in case cerr of
                                            Some err \<Rightarrow> (r, ev, [], Some (Error err))
                                          | None \<Rightarrow>
                                              ((if int (length layers)
                                                     \<noteq> int (length (layersInBundle st)) - 1
                                                then r\<lparr>isPartial := True\<rparr> else r),
                                               ev, layersInBundle st, None))))))))"

record ZarfPackage =
  MetadataName :: string
  AggregateChecksum :: string
  Components :: "string list"

definition emptyPackage :: ZarfPackage where
  "emptyPackage = \<lparr>MetadataName = [], AggregateChecksum = [], Components = []\<rparr>"

datatype unarchived = UnarchiveOk | NotLoaded | UnarchiveFailed error

text \<open>
  The package layout and the packaging library as \<open>LoadPackage\<close> sees them.
  \<open>filterApply\<close> gives the pair \<open>filter.Apply\<close> returns. \<open>ValidatePackageIntegrity\<close> takes
  the layers the layout was set from, the aggregate checksum and the partial flag.
  \<open>addNamespaceOverrides\<close> is defined elsewhere in the package and is a parameter
  here.
\<close>

record PackageOps =
  ReadYaml :: "error + ZarfPackage"
  filterApply :: "ZarfPackage \<Rightarrow> string list \<times> error option"
  ValidatePackageIntegrity :: "Descriptor list \<Rightarrow> string \<Rightarrow> bool \<Rightarrow> error option"
  Unarchive :: "string \<Rightarrow> unarchived"
  Create :: "string \<Rightarrow> error option"
  SBOMsPath :: string
  SBOMsUnarchive :: "error option"
  addNamespaceOverrides :: "ZarfPackage \<Rightarrow> ZarfPackage"

text \<open>The calls \<open>LoadPackage\<close> makes, in the order it makes them.\<close>

datatype step =
    Download
  | Send sent
  | ReadYamlStep
  | FilterApply
  | SetFromLayers "Descriptor list"
  | Validate string bool
  | UnarchiveStep string
  | CreateStep string
  | SBOMsUnarchiveStep
  | NamespaceOverrides

fun unarchiveComponents :: "PackageOps \<Rightarrow> string list \<Rightarrow> step list \<Rightarrow> step list \<times> error option" where
  "unarchiveComponents ops [] tr = (tr, None)"
| "unarchiveComponents ops (c # cs) tr =
     (case Unarchive ops c of
        UnarchiveOk \<Rightarrow> unarchiveComponents ops cs (tr @ [UnarchiveStep c])
      | NotLoaded \<Rightarrow>
          (case Create ops c of
             Some err \<Rightarrow> (tr @ [UnarchiveStep c, CreateStep c], Some err)
           | None \<Rightarrow> unarchiveComponents ops cs (tr @ [UnarchiveStep c, CreateStep c]))
      | UnarchiveFailed err \<Rightarrow> (tr @ [UnarchiveStep c], Some err))"

definition unarchiveAllSteps :: "PackageOps \<Rightarrow> string list \<Rightarrow> step list \<Rightarrow> step list \<times> error option" where
  "unarchiveAllSteps ops comps tr =
     (case unarchiveComponents ops comps tr of
        (tr1, Some err) \<Rightarrow> (tr1, Some err)
      | (tr1, None) \<Rightarrow>
          if SBOMsPath ops \<noteq> [] then (tr1 @ [SBOMsUnarchiveStep], SBOMsUnarchive ops)
          else (tr1, None))"

text \<open>
  \<open>LoadPackage\<close>: the source after the call, the calls made, and the package and the
  error the Go function returns; a panic of the download stands in the place of the
  error.
\<close>

definition LoadPackage ::
  "Remote \<Rightarrow> PackageOps \<Rightarrow> bool \<Rightarrow> RemoteBundle \<Rightarrow> RemoteBundle \<times> step list \<times> ZarfPackage \<times> failure option" where
  "LoadPackage rm ops unarchiveAll r =
     (case downloadPkgFromRemoteBundle rm r of
        (r1, ev, layers, derr) \<Rightarrow>
          (let tr0 = Download # map Send ev
           in case derr of
                Some f \<Rightarrow> (r1, tr0, emptyPackage, Some f)
              | None \<Rightarrow>
                  (case ReadYaml ops of
                     Inl err \<Rightarrow> (r1, tr0 @ [ReadYamlStep], emptyPackage, Some (Error err))
                   | Inr pkg0 \<Rightarrow>
                       (case filterApply ops pkg0 of
                          (comps, ferr) \<Rightarrow>
                            (let pkg = pkg0\<lparr>Components := comps\<rparr>;
                                 tr1 = tr0 @ [ReadYamlStep, FilterApply]
                             in case ferr of
                                  Some err \<Rightarrow> (r1, tr1, pkg, Some (Error err))
                                | None \<Rightarrow>
                                    (let tr2 = tr1 @ [Send (TotalComponents (length (Components pkg))),
                                                      SetFromLayers layers,
                                                      Validate (AggregateChecksum pkg) (isPartial r1)]
                                     in case ValidatePackageIntegrity ops layers
                                               (AggregateChecksum pkg) (isPartial r1) of
                                          Some err \<Rightarrow> (r1, tr2, emptyPackage, Some (Error err))
                                        | None \<Rightarrow>
                                            (case (if unarchiveAll
                                                   then unarchiveAllSteps ops (Components pkg) tr2
                                                   else (tr2, None)) of
                                               (tr3, Some err) \<Rightarrow> (r1, tr3, emptyPackage, Some (Error err))
                                             | (tr3, None) \<Rightarrow>
                                                 (r1, tr3 @ [NamespaceOverrides],
                                                  (addNamespaceOverrides ops pkg)\<lparr>MetadataName := PkgName r1\<rparr>,
                                                  None))))))))"

fun isValidate :: "step \<Rightarrow> bool" where
  "isValidate (Validate c p) = True"
| "isValidate s = False"

fun isFilterApply :: "step \<Rightarrow> bool" where
  "isFilterApply FilterApply = True"
| "isFilterApply s = False"

text \<open>\<open>precedes P Q tr\<close>: some step with \<open>Q\<close> comes after the first step with \<open>P\<close>.\<close>

definition precedes :: "(step \<Rightarrow> bool) \<Rightarrow> (step \<Rightarrow> bool) \<Rightarrow> step list \<Rightarrow> bool" where
  "precedes P Q tr = list_ex Q (drop 1 (dropWhile (\<lambda>s. \<not> P s) tr))"

text \<open>
  The calls of \<open>LoadPackage\<close> after the download and what it sent, by the point at
  which the function returns: \<open>partial\<close> is the flag handed to the validation, \<open>err\<close> the
  error returned.
\<close>

definition traceTail :: "PackageOps \<Rightarrow> bool \<Rightarrow> failure option \<Rightarrow> step list \<Rightarrow> bool" where
  "traceTail ops partial err tail =
     (tail = [] \<or> tail = [ReadYamlStep]
      \<or> (tail = [ReadYamlStep, FilterApply]
          \<and> (\<exists>p0. ReadYaml ops = Inr p0 \<and> err = map_option Error (snd (filterApply ops p0))
                 \<and> err \<noteq> None))
      \<or> (\<exists>n ls c ext p0.
            tail = [ReadYamlStep, FilterApply, Send (TotalComponents n), SetFromLayers ls,
                    Validate c partial] @ ext
            \<and> ReadYaml ops = Inr p0 \<and> snd (filterApply ops p0) = None
            \<and> (\<forall>s \<in> set ext. \<not> isValidate s \<and> \<not> isFilterApply s)))"

text \<open>
  Modelled from the spec: the integrity validation of the packaging library
  (\<open>sources.ValidatePackageIntegrity\<close>), which the sources do not hold. Section 4.2,
  step 7: the aggregate checksum of the retrieved content is validated against the
  declared one; validation is strict unless the package is marked partial, in which
  case it tolerates the absence of unfetched optional layers. \<open>actual\<close> is the aggregate
  checksum of what was retrieved, \<open>wanted\<close> the layers the package consists of, \<open>loaded\<close>
  the layers the layout was set from.
\<close>

definition specValidatePackageIntegrity ::
  "string \<Rightarrow> Descriptor list \<Rightarrow> Descriptor list \<Rightarrow> string \<Rightarrow> bool \<Rightarrow> error option" where
  "specValidatePackageIntegrity actual wanted loaded aggregateChecksum partial =
     (if actual \<noteq> aggregateChecksum then Some ''invalid aggregate checksum''
      else if \<not> partial \<and> \<not> list_all (\<lambda>l. l \<in> set loaded) wanted then Some ''content missing''
      else None)"

text \<open>The error a run returned, and the package.\<close>

definition returnedError ::
  "RemoteBundle \<times> step list \<times> ZarfPackage \<times> failure option \<Rightarrow> failure option" where
  "returnedError res = snd (snd (snd res))"

definition returnedPackage ::
  "RemoteBundle \<times> step list \<times> ZarfPackage \<times> failure option \<Rightarrow> ZarfPackage" where
  "returnedPackage res = fst (snd (snd res))"

definition calls :: "RemoteBundle \<times> step list \<times> ZarfPackage \<times> failure option \<Rightarrow> step list" where
  "calls res = fst (snd res)"

section \<open>Observations and example inputs\<close>

text \<open>
  A tick reaches the progress computation of the current package and can carry it
  out: the package is not marked complete, its name, its positive component total,
  its bar and its spinner are there.
\<close>

definition tickReady :: "Model \<Rightarrow> bool" where
  "tickReady m =
     (0 \<le> pkgIdx m
      \<and> \<not> (pkgIdx m < int (length (complete m)) \<and> complete m ! nat (pkgIdx m))
      \<and> inRange (totalComponentsPerPkg m) (pkgIdx m)
      \<and> 0 < totalComponentsPerPkg m ! nat (pkgIdx m)
      \<and> inRange (pkgNames m) (pkgIdx m)
      \<and> inRange (progressBars m) (pkgIdx m)
      \<and> inRange (spinners m) (pkgIdx m))"

text \<open>Two models describe the same point of the same run, bars and spinners apart.\<close>

definition sameRun :: "Model \<Rightarrow> Model \<Rightarrow> bool" where
  "sameRun m m' =
     (pkgIdx m' = pkgIdx m \<and> pkgNames m' = pkgNames m
      \<and> totalComponentsPerPkg m' = totalComponentsPerPkg m \<and> complete m' = complete m
      \<and> length (progressBars m') = length (progressBars m)
      \<and> length (spinners m') = length (spinners m))"

text \<open>The percentage of the current package's bar, and the reset flag, after a run.\<close>

definition currentPercent :: "panic + tui \<Rightarrow> rat option" where
  "currentPercent res =
     (case res of
        Inl p \<Rightarrow> None
      | Inr s \<Rightarrow>
          if inRange (progressBars (fst s)) (pkgIdx (fst s))
          then Some (Percent (progressBars (fst s) ! nat (pkgIdx (fst s))))
          else None)"

definition resetFlag :: "panic + tui \<Rightarrow> bool option" where
  "resetFlag res = (case res of Inl p \<Rightarrow> None | Inr s \<Rightarrow> Some (snd s))"

text \<open>The number of deployed components the cluster shows for a package, if it has a record.\<close>

definition deployedCount :: "k8s \<Rightarrow> string \<Rightarrow> nat option" where
  "deployedCount cl name =
     (case GetDeployedPackage cl name of
        Inr (Some d) \<Rightarrow> Some (length (DeployedComponents d))
      | Inr None \<Rightarrow> None
      | Inl p \<Rightarrow> None)"

text \<open>The query answers, and shows no deployed component.\<close>

definition showsNone :: "k8s \<Rightarrow> string \<Rightarrow> bool" where
  "showsNone cl name =
     (case GetDeployedPackage cl name of
        Inr (Some d) \<Rightarrow> DeployedComponents d = []
      | Inr None \<Rightarrow> True
      | Inl p \<Rightarrow> False)"

text \<open>
  Example clusters: one with no secret at all, one where package \<open>a\<close> has a record with
  the given components, one where the secret of package \<open>a\<close> holds bytes that do not
  decode.
\<close>

definition clusterEmpty :: k8s where
  "clusterEmpty =
     \<lparr>GetSecret = (\<lambda>ns name. None), Unmarshal = (\<lambda>bs. None),
      ZarfPackagePrefix = ''zarf-package-''\<rparr>"

definition clusterDeployed :: "string list \<Rightarrow> k8s" where
  "clusterDeployed comps =
     \<lparr>GetSecret = (\<lambda>ns name. if ns = ''zarf'' \<and> name = ''zarf-package-a''
                              then Some [''data'' \<mapsto> ''record''] else None),
      Unmarshal = (\<lambda>bs. if bs = ''record''
                         then Some (Some \<lparr>Name = ''a'', DeployedComponents = comps\<rparr>) else None),
      ZarfPackagePrefix = ''zarf-package-''\<rparr>"

definition clusterCorrupt :: k8s where
  "clusterCorrupt =
     \<lparr>GetSecret = (\<lambda>ns name. if ns = ''zarf'' \<and> name = ''zarf-package-a''
                              then Some [''data'' \<mapsto> ''garbage''] else None),
      Unmarshal = (\<lambda>bs. None),
      ZarfPackagePrefix = ''zarf-package-''\<rparr>"

text \<open>A model in the middle of a run: package \<open>a\<close> at index 0 with two components.\<close>

definition modelA :: Model where
  "modelA =
     \<lparr>bundleYAML = [], progressBars = [progress_New], pkgNames = [''a''], pkgIdx = 0,
      totalComponentsPerPkg = [2], totalPkgs = 1, spinners = [spinner_New],
      confirmed = True, complete = [], done' = False\<rparr>"

text \<open>The last of two packages, both marked complete.\<close>

definition modelAB :: Model where
  "modelAB =
     \<lparr>bundleYAML = [], progressBars = [progress_New, progress_New], pkgNames = [''a'', ''b''],
      pkgIdx = 1, totalComponentsPerPkg = [2, 3], totalPkgs = 2,
      spinners = [spinner_New, spinner_New], confirmed = True, complete = [True, True],
      done' = False\<rparr>"

text \<open>The messages of package \<open>a\<close> with two components, the only package of its bundle.\<close>

definition eventsA :: "k8s \<Rightarrow> (k8s \<times> Msg) list" where
  "eventsA cl =
     [(cl, StringMsg ''totalPackages:1''), (cl, StringMsg ''package:a''),
      (cl, StringMsg ''idx:0''), (cl, StringMsg ''totalComponents:2'')]"

text \<open>
  A bundle whose package manifest declares two layers: an optional one that the
  registry does not hold and the package definition, which it holds.
\<close>

definition manifestDesc :: Descriptor where
  "manifestDesc = \<lparr>MediaType = ''application/vnd.oci.image.manifest.v1+json'',
                    Digest = ''sha256:mm'', Size = 5, Annotations = []\<rparr>"

definition layerAbsent :: Descriptor where
  "layerAbsent = \<lparr>MediaType = ''application/vnd.zarf.layer.v1.blob'', Digest = ''sha256:aa'',
                   Size = 10, Annotations = [(''org.opencontainers.image.title'', ''optional.tar'')]\<rparr>"

definition layerPresent :: Descriptor where
  "layerPresent = \<lparr>MediaType = ''application/vnd.zarf.layer.v1.blob'', Digest = ''sha256:bb'',
                    Size = 20, Annotations = [(''org.opencontainers.image.title'', ''zarf.yaml'')]\<rparr>"

definition remoteTwo :: Remote where
  "remoteTwo =
     \<lparr>FetchRoot = Inr (\<lambda>sha. if sha = ''mm'' then Some manifestDesc else None),
      FetchManifest = (\<lambda>d. (Some [layerAbsent, layerPresent], None)),
      BlobExists = (\<lambda>l. Inr (Digest l = ''sha256:bb'')),
      cache_Exists = (\<lambda>digest. False),
      cache_Use = (\<lambda>digest dst. None),
      filepath_Join = (\<lambda>elems. concat (map (\<lambda>e. CHR ''/'' # e) elems)),
      file_New = (\<lambda>dir. None),
      oras_Copy = (\<lambda>ls. (ls, None)),
      ZarfLayerMediaTypeBlob = ''application/vnd.zarf.layer.v1.blob'',
      BlobsDir = ''blobs/sha256'',
      AnnotationTitle = ''org.opencontainers.image.title''\<rparr>"

definition bundleA :: RemoteBundle where
  "bundleA = \<lparr>PkgName = ''a'', PkgManifestSHA = ''mm'', TmpDir = ''/tmp/uds'', isPartial = False\<rparr>"

text \<open>
  A package with two components; a layout where every call succeeds, and one where
  both the filter and the integrity validation report an error.
\<close>

definition packageA :: ZarfPackage where
  "packageA = \<lparr>MetadataName = ''original'', AggregateChecksum = ''abc'', Components = [''c1'', ''c2'']\<rparr>"

definition opsOk :: PackageOps where
  "opsOk =
     \<lparr>ReadYaml = Inr packageA,
      filterApply = (\<lambda>pkg. (Components pkg, None)),
      ValidatePackageIntegrity = (\<lambda>ls checksum partial. None),
      Unarchive = (\<lambda>c. UnarchiveOk),
      Create = (\<lambda>c. None),
      SBOMsPath = [],
      SBOMsUnarchive = None,
      addNamespaceOverrides = (\<lambda>pkg. pkg)\<rparr>"

definition opsBothFail :: PackageOps where
  "opsBothFail =
     opsOk\<lparr>filterApply := (\<lambda>pkg. ([], Some ''component not found'')),
           ValidatePackageIntegrity := (\<lambda>ls checksum partial. Some ''checksum mismatch'')\<rparr>"

text \<open>
  A layout whose validation is the one the spec describes, for the package of the
  two layers and content that has the declared checksum.
\<close>

definition opsSpec :: PackageOps where
  "opsSpec =
     opsOk\<lparr>ValidatePackageIntegrity :=
             specValidatePackageIntegrity ''abc''
               [manifestDesc\<lparr>MediaType := ''application/vnd.zarf.layer.v1.blob''\<rparr>,
                layerAbsent, layerPresent]\<rparr>"

text \<open>The sent events that report verification.\<close>

fun isVerifying :: "sent \<Rightarrow> bool" where
  "isVerifying (Verifying p) = True"
| "isVerifying e = False"

text \<open>
  A bundle client whose deploy fails, and a schedule: the deploy is confirmed and
  started, reports its first package, fails, and the next tick sees the failure.
\<close>

definition clientFails :: bndlClient where
  "clientFails = \<lparr>DeployResult = Some ''boom'', PreDeployValidationResult = None,
                   ConfirmBundleDeployResult = True\<rparr>"

definition scheduleFail :: "scheduled list" where
  "scheduleFail =
     [Deliver clusterEmpty (OperationMsg DeployOp),
      Deliver clusterEmpty (StringMsg ''totalPackages:1''),
      Deliver clusterEmpty (StringMsg ''package:a''),
      Deliver clusterEmpty (StringMsg ''idx:0''),
      Deliver clusterEmpty (StringMsg ''totalComponents:2''),
      Deliver clusterEmpty TickMsg,
      WorkerRuns,
      Deliver clusterEmpty TickMsg]"

section \<open>Facts about the Go primitives\<close>

lemma splitFrom_no_sep: "sep \<notin> set s \<Longrightarrow> splitFrom s sep field = [rev field @ s]"
  by (induction s arbitrary: field) auto

lemma Split_no_sep: "sep \<notin> set s \<Longrightarrow> Split s sep = [s]"
  by (simp add: Split_def splitFrom_no_sep)

text \<open>The rounding of \<open>float64\<close>: the exponent found is the right one, and the result is within half a unit of the last place.\<close>

lemma pow2_power_int: "pow2 e = power_int 2 e"
  by (simp add: pow2_def power_int_def field_simps)

lemma pow2_pos: "0 < pow2 e"
  by (simp add: pow2_power_int)

lemma pow2_add: "pow2 (x + y) = pow2 x * pow2 y"
  by (simp add: pow2_power_int power_int_add)

lemma pow2_nat: "pow2 (int n) = 2 ^ n"
  by (simp add: pow2_def)

lemma bitlen_pow2_bounds:
  assumes "0 < x"
  shows "pow2 (bitlen x - 1) \<le> of_int x" and "of_int x < pow2 (bitlen x)"
proof -
  from bitlen_bounds [OF assms] have b: "2 ^ nat (bitlen x - 1) \<le> x" "x < 2 ^ nat (bitlen x)"
    by simp_all
  have pos: "0 < bitlen x"
    using assms bitlen_nonneg [of x] bitlen_eq_zero_iff [of x] by linarith
  have "pow2 (bitlen x - 1) = of_int (2 ^ nat (bitlen x - 1))"
    using pos by (simp add: pow2_def)
  also have "\<dots> \<le> of_int x" using b(1) by (simp only: of_int_le_iff)
  finally show "pow2 (bitlen x - 1) \<le> of_int x" .
  have "(of_int x :: rat) < of_int (2 ^ nat (bitlen x))" using b(2) by (simp only: of_int_less_iff)
  also have "\<dots> = pow2 (bitlen x)" using pos by (simp add: pow2_def)
  finally show "of_int x < pow2 (bitlen x)" .
qed

lemma floorLog2_bounds:
  assumes "0 < q"
  shows "pow2 (floorLog2 q) \<le> q \<and> q < pow2 (floorLog2 q + 1)"
proof -
  obtain a b where ab: "quotient_of q = (a, b)" by (cases "quotient_of q")
  then have b: "0 < b" and q: "q = of_int a / of_int b"
    by (simp_all add: quotient_of_denom_pos quotient_of_div)
  have a: "0 < a" using assms b q by (simp add: zero_less_divide_iff)
  define d where "d = bitlen a - bitlen b"
  note ba = bitlen_pow2_bounds [OF a] and bb = bitlen_pow2_bounds [OF b]
  have bpos: "(0::rat) < of_int b" using b by simp
  have lo: "pow2 (d - 1) \<le> q"
  proof -
    have "pow2 (d - 1) * of_int b \<le> pow2 (d - 1) * pow2 (bitlen b)"
      using bb(2) pow2_pos [of "d - 1"] by (simp add: less_imp_le)
    also have "\<dots> = pow2 (bitlen a - 1)"
      by (simp add: pow2_add [symmetric] d_def)
    also have "\<dots> \<le> of_int a" by (rule ba(1))
    finally show ?thesis using bpos by (simp add: q pos_le_divide_eq)
  qed
  have hi: "q < pow2 (d + 1)"
  proof -
    have "of_int a < pow2 (bitlen a)" by (rule ba(2))
    also have "\<dots> = pow2 (d + 1) * pow2 (bitlen b - 1)"
      by (simp add: pow2_add [symmetric] d_def)
    also have "\<dots> \<le> pow2 (d + 1) * of_int b"
      using bb(1) pow2_pos [of "d + 1"] by simp
    finally show ?thesis using bpos by (simp add: q pos_divide_less_eq)
  qed
  show ?thesis
  proof (cases "pow2 d \<le> q")
    case True
    then show ?thesis using hi ab by (simp add: floorLog2_def d_def Let_def)
  next
    case False
    then show ?thesis using lo ab by (simp add: floorLog2_def d_def Let_def)
  qed
qed

text \<open>float64 leaves a binary64 number as it is; the mantissa it yields has at most 53 bits.\<close>

lemma roundHalfEven_near: "\<bar>of_int (roundHalfEven q) - q\<bar> \<le> 1 / 2"
proof -
  have "of_int \<lfloor>q\<rfloor> \<le> q" "q < of_int \<lfloor>q\<rfloor> + 1"
    by linarith+
  then show ?thesis
    by (auto simp add: roundHalfEven_def Let_def abs_le_iff)
qed

lemma float64_near:
  assumes "0 < q"
  shows "\<bar>float64 q - q\<bar> \<le> pow2 (floorLog2 q - 53)"
proof -
  define e where "e = floorLog2 q - 52"
  have r: "float64 q = of_int (roundHalfEven (q / pow2 e)) * pow2 e"
    using assms by (simp add: float64_def e_def Let_def)
  have "(of_int (roundHalfEven (q / pow2 e)) - q / pow2 e) * pow2 e = float64 q - q"
    using pow2_pos [of e] by (simp add: r left_diff_distrib)
  then have "\<bar>float64 q - q\<bar> = \<bar>of_int (roundHalfEven (q / pow2 e)) - q / pow2 e\<bar> * \<bar>pow2 e\<bar>"
    by (simp only: abs_mult [symmetric])
  also have "\<dots> = \<bar>of_int (roundHalfEven (q / pow2 e)) - q / pow2 e\<bar> * pow2 e"
    using pow2_pos [of e] by simp
  also have "\<dots> \<le> 1 / 2 * pow2 e"
    using roundHalfEven_near [of "q / pow2 e"] pow2_pos [of e]
    by (intro mult_right_mono) simp_all
  also have "\<dots> = pow2 (floorLog2 q - 53)"
  proof -
    have "pow2 e = pow2 (floorLog2 q - 53) * pow2 1"
      by (simp add: pow2_add [symmetric] e_def)
    then show ?thesis by (simp add: pow2_def)
  qed
  finally show ?thesis .
qed

section \<open>Facts about the example inputs\<close>

lemma GetDeployedPackage_clusterDeployed:
  "GetDeployedPackage (clusterDeployed comps) ''a''
     = Inr (Some \<lparr>Name = ''a'', DeployedComponents = comps\<rparr>)"
  by (simp add: GetDeployedPackage_def clusterDeployed_def)

lemma GetDeployedPackage_clusterEmpty: "GetDeployedPackage clusterEmpty name = Inr None"
  by (simp add: GetDeployedPackage_def clusterEmpty_def)

lemma tickReady_modelA: "tickReady modelA"
  by (simp add: tickReady_def modelA_def inRange_def)

lemma modelA_current: "pkgNames modelA ! nat (pkgIdx modelA) = ''a''"
  by (simp add: modelA_def)

lemma eventsA_run:
  "deliver (eventsA (clusterDeployed [''c1''])) (InitModel True [], False) = Inr (modelA, True)"
  by (simp add: eventsA_def Update_def onString_def Split_def index_def InitModel_def modelA_def
      GetDeployedPackage_clusterDeployed Atoi_def digitVal_def)

lemma deliver_append:
  "deliver (xs @ ys) s = (case deliver xs s of Inl p \<Rightarrow> Inl p | Inr s' \<Rightarrow> deliver ys s')"
  by (induction xs arbitrary: s) (auto split: sum.splits)

section \<open>The string handler of Update\<close>

lemma onString_one_field:
  "Split msg CHR '':'' = [t] \<Longrightarrow>
   t \<in> {''package'', ''totalComponents'', ''totalPackages'', ''idx''} \<Longrightarrow>
   onString cl msg s = Inl IndexOutOfRange"
  by (cases s) (auto simp add: onString_def index_def)

text \<open>
  C10. The string branch of \<open>Update\<close> splits the message on the colon and reads the
  second field without a check of the number of fields: a message that is just the
  tag \<open>package\<close>, \<open>totalComponents\<close>, \<open>totalPackages\<close> or \<open>idx\<close>, with no colon, makes the
  handler panic with an index out of range, whatever the model and the cluster are.
\<close>

theorem Update_tag_without_colon_panics:
  "Update cl False (StringMsg ''package'') s = Inl IndexOutOfRange
   \<and> Update cl False (StringMsg ''totalComponents'') s = Inl IndexOutOfRange
   \<and> Update cl False (StringMsg ''totalPackages'') s = Inl IndexOutOfRange
   \<and> Update cl False (StringMsg ''idx'') s = Inl IndexOutOfRange"
  by (simp add: Update_def onString_one_field Split_no_sep)

section \<open>Ticks and the reset flag\<close>

lemma tickReady_sameRun: "tickReady m \<Longrightarrow> sameRun m m' \<Longrightarrow> tickReady m'"
  by (simp add: tickReady_def sameRun_def inRange_def)

lemma sameRun_trans: "sameRun m m' \<Longrightarrow> sameRun m' m'' \<Longrightarrow> sameRun m m''"
  by (simp add: sameRun_def)

lemma sameRun_refl: "sameRun m m"
  by (simp add: sameRun_def)

lemma tick_flag_set:
  assumes "tickReady m"
    and "GetDeployedPackage cl (pkgNames m ! nat (pkgIdx m)) = Inr dp"
  shows "\<exists>m' c. Update cl False TickMsg (m, True)
             = Inr ((m', (case dp of None \<Rightarrow> True | Some d \<Rightarrow> DeployedComponents d = [])), c)
           \<and> sameRun m m'
           \<and> Percent (progressBars m' ! nat (pkgIdx m)) = 0"
  using assms
  by (cases dp)
     (auto simp add: Update_def onTick_def tickProgress_def tickReady_def inRange_def sameRun_def
      SetPercent_def Percent_def Let_def Suc_le_eq)

lemma tick_flag_clear:
  assumes "tickReady m"
    and "GetDeployedPackage cl (pkgNames m ! nat (pkgIdx m)) = Inr (Some d)"
  shows "\<exists>m' c. Update cl False TickMsg (m, False) = Inr ((m', False), c)
           \<and> sameRun m m'
           \<and> Percent (progressBars m' ! nat (pkgIdx m))
               = min 1 (of_nat (length (DeployedComponents d))
                          / of_int (totalComponentsPerPkg m ! nat (pkgIdx m)))"
  using assms
  by (auto simp add: Update_def onTick_def tickProgress_def tickReady_def inRange_def sameRun_def
      SetPercent_def Percent_def Let_def max_def min_def)

lemma showsNone_cases:
  "showsNone cl name \<Longrightarrow>
   \<exists>dp. GetDeployedPackage cl name = Inr dp
        \<and> (case dp of None \<Rightarrow> True | Some d \<Rightarrow> DeployedComponents d = [])"
  by (auto simp add: showsNone_def split: sum.splits option.splits)

lemma deployedCount_cases:
  "deployedCount cl name = Some k \<Longrightarrow>
   \<exists>d. GetDeployedPackage cl name = Inr (Some d) \<and> length (DeployedComponents d) = k"
  by (auto simp add: deployedCount_def split: sum.splits option.splits)

lemma ticksRun_append:
  "ticksRun (xs @ ys) s = (case ticksRun xs s of Inl p \<Rightarrow> Inl p | Inr s' \<Rightarrow> ticksRun ys s')"
  by (induction xs arbitrary: s) (auto split: sum.splits)

lemma ticks_while_none:
  assumes "tickReady m"
    and "\<forall>cl \<in> set cls. showsNone cl (pkgNames m ! nat (pkgIdx m))"
  shows "\<exists>m'. ticksRun cls (m, True) = Inr (m', True) \<and> sameRun m m'
           \<and> (cls \<noteq> [] \<longrightarrow> Percent (progressBars m' ! nat (pkgIdx m)) = 0)"
  using assms
proof (induction cls arbitrary: m rule: rev_induct)
  case Nil
  then show ?case by (simp add: sameRun_refl)
next
  case (snoc cl cls)
  from snoc obtain m1 where m1: "ticksRun cls (m, True) = Inr (m1, True)" "sameRun m m1"
    by fastforce
  have ready: "tickReady m1"
    using snoc.prems(1) m1(2) by (rule tickReady_sameRun)
  have same: "pkgNames m1 = pkgNames m" "pkgIdx m1 = pkgIdx m"
    using m1(2) by (simp_all add: sameRun_def)
  from snoc.prems(2) have "showsNone cl (pkgNames m1 ! nat (pkgIdx m1))"
    by (simp add: same)
  then obtain dp where dp: "GetDeployedPackage cl (pkgNames m1 ! nat (pkgIdx m1)) = Inr dp"
      "case dp of None \<Rightarrow> True | Some d \<Rightarrow> DeployedComponents d = []"
    using showsNone_cases by blast
  from tick_flag_set [OF ready dp(1)] dp(2) obtain m2 c where
    m2: "Update cl False TickMsg (m1, True) = Inr ((m2, True), c)" "sameRun m1 m2"
      "Percent (progressBars m2 ! nat (pkgIdx m1)) = 0"
    by auto
  have "ticksRun (cls @ [cl]) (m, True) = Inr (m2, True)"
    by (simp add: ticksRun_append m1(1) m2(1))
  moreover have "sameRun m m2"
    using m1(2) m2(2) by (rule sameRun_trans)
  ultimately show ?case
    using m2(3) same(2) by simp
qed

text \<open>Only a tick that sees a deployed component clears the reset flag.\<close>

lemma onString_keeps_flag:
  "onString cl str (m, True) = Inr ((m', r'), c) \<Longrightarrow> r'"
  by (auto simp add: onString_def Let_def split: sum.splits option.splits if_splits)

lemma tickProgress_clears:
  "tickProgress cl (m, True) = Inr ((m', False), c) \<Longrightarrow>
   \<exists>k. deployedCount cl (pkgNames m ! nat (pkgIdx m)) = Some k \<and> 1 \<le> k"
  by (auto simp add: tickProgress_def deployedCount_def Let_def split: sum.splits option.splits if_splits)

lemma onTickComplete_keeps_flag:
  "onTickComplete (m, r) = Inr ((m', r'), c) \<Longrightarrow> r' = r"
  by (auto simp add: onTickComplete_def Let_def split: sum.splits option.splits if_splits)

lemma reset_flag_cleared_only_by_tick:
  assumes "Update cl fatal msg (m, True) = Inr ((m', False), c)"
  shows "\<not> fatal \<and> msg = TickMsg
       \<and> (\<exists>k. deployedCount cl (pkgNames m ! nat (pkgIdx m)) = Some k \<and> 1 \<le> k)"
proof (cases fatal)
  case True
  with assms show ?thesis
    by (auto simp add: Update_def onFatal_def Let_def split: if_splits)
next
  case False
  show ?thesis
  proof (cases msg)
    case TickMsg
    with assms False show ?thesis
      by (auto simp add: Update_def onTick_def Let_def
          dest: onTickComplete_keeps_flag tickProgress_clears
          split: sum.splits if_splits prod.splits)
  next
    case (StringMsg str)
    with assms False show ?thesis
      by (auto simp add: Update_def dest: onString_keeps_flag)
  qed (use assms False in \<open>auto simp add: Update_def onFrame_def onKey_def onOperation_def split: if_splits\<close>)
qed

text \<open>
  C3 (as the code has it). A package found deployed at its package event leaves the
  reset flag set. From then on, for a package that is being deployed (\<open>tickReady\<close>: not
  marked complete, with a positive component total), every tick that sees no deployed
  component sets the bar to 0 and leaves the flag set; the first tick that sees at
  least one deployed component still sets the bar to 0 and clears the flag.
\<close>

theorem reset_holds_progress_at_zero:
  assumes "tickReady m"
    and "\<forall>cl \<in> set cls. showsNone cl (pkgNames m ! nat (pkgIdx m))"
    and "deployedCount cl' (pkgNames m ! nat (pkgIdx m)) = Some k" and "1 \<le> k"
  shows "(\<forall>j. j \<le> length cls \<longrightarrow> resetFlag (ticksRun (take j cls) (m, True)) = Some True)
       \<and> (\<forall>j. 0 < j \<and> j \<le> length cls \<longrightarrow>
              currentPercent (ticksRun (take j cls) (m, True)) = Some 0)
       \<and> resetFlag (ticksRun (cls @ [cl']) (m, True)) = Some False
       \<and> currentPercent (ticksRun (cls @ [cl']) (m, True)) = Some 0"
proof -
  have prefix: "\<exists>m'. ticksRun (take j cls) (m, True) = Inr (m', True) \<and> sameRun m m'
           \<and> (take j cls \<noteq> [] \<longrightarrow> Percent (progressBars m' ! nat (pkgIdx m)) = 0)" for j
    using assms(1,2) by (intro ticks_while_none) (auto dest: in_set_takeD)
  have ready_in: "inRange (progressBars m') (pkgIdx m')" if "sameRun m m'" for m'
    using tickReady_sameRun [OF assms(1) that] by (simp add: tickReady_def)
  have a: "resetFlag (ticksRun (take j cls) (m, True)) = Some True" for j
    using prefix [of j] by (auto simp add: resetFlag_def)
  have b: "currentPercent (ticksRun (take j cls) (m, True)) = Some 0" if "0 < j" "j \<le> length cls" for j
  proof -
    from prefix [of j] obtain m' where m': "ticksRun (take j cls) (m, True) = Inr (m', True)"
      "sameRun m m'" "take j cls \<noteq> [] \<longrightarrow> Percent (progressBars m' ! nat (pkgIdx m)) = 0"
      by blast
    have "take j cls \<noteq> []" using that by auto
    then show ?thesis
      using m' ready_in [OF m'(2)] by (simp add: currentPercent_def sameRun_def)
  qed
  from prefix [of "length cls"] obtain m1 where
    m1: "ticksRun cls (m, True) = Inr (m1, True)" "sameRun m m1"
    by auto
  have ready: "tickReady m1"
    using assms(1) m1(2) by (rule tickReady_sameRun)
  have same: "pkgNames m1 = pkgNames m" "pkgIdx m1 = pkgIdx m"
    using m1(2) by (simp_all add: sameRun_def)
  from deployedCount_cases [OF assms(3)] obtain d where
    d: "GetDeployedPackage cl' (pkgNames m1 ! nat (pkgIdx m1)) = Inr (Some d)"
      "length (DeployedComponents d) = k"
    by (auto simp add: same)
  have nonempty: "DeployedComponents d \<noteq> []"
    using d(2) assms(4) by auto
  from tick_flag_set [OF ready d(1)] nonempty obtain m2 c where
    m2: "Update cl' False TickMsg (m1, True) = Inr ((m2, False), c)" "sameRun m1 m2"
      "Percent (progressBars m2 ! nat (pkgIdx m1)) = 0"
    by auto
  have run: "ticksRun (cls @ [cl']) (m, True) = Inr (m2, False)"
    by (simp add: ticksRun_append m1(1) m2(1))
  have "sameRun m m2"
    using m1(2) m2(2) by (rule sameRun_trans)
  then have "inRange (progressBars m2) (pkgIdx m2)" "pkgIdx m2 = pkgIdx m"
    using ready_in by (simp_all add: sameRun_def)
  then have c: "currentPercent (ticksRun (cls @ [cl']) (m, True)) = Some 0"
    using run m2(3) same(2) by (simp add: currentPercent_def)
  have d': "resetFlag (ticksRun (cls @ [cl']) (m, True)) = Some False"
    using run by (simp add: resetFlag_def)
  show ?thesis
    using a b c d' by blast
qed


theorem reset_holds_progress_at_zero_witness:
  "tickReady modelA
   \<and> showsNone clusterEmpty ''a'' \<and> showsNone (clusterDeployed []) ''a''
   \<and> deployedCount (clusterDeployed [''c1'']) ''a'' = Some 1
   \<and> resetFlag (ticksRun [clusterEmpty] (modelA, True)) = Some True
   \<and> currentPercent (ticksRun [clusterEmpty, clusterDeployed []] (modelA, True)) = Some 0
   \<and> resetFlag (ticksRun [clusterEmpty, clusterDeployed [], clusterDeployed [''c1'']] (modelA, True))
       = Some False
   \<and> currentPercent
         (ticksRun [clusterEmpty, clusterDeployed [], clusterDeployed [''c1'']] (modelA, True))
       = Some 0"
proof -
  have h2: "\<forall>cl \<in> set [clusterEmpty, clusterDeployed []].
              showsNone cl (pkgNames modelA ! nat (pkgIdx modelA))"
    by (simp add: modelA_current showsNone_def GetDeployedPackage_clusterDeployed
        GetDeployedPackage_clusterEmpty)
  have h3: "deployedCount (clusterDeployed [''c1'']) (pkgNames modelA ! nat (pkgIdx modelA)) = Some 1"
    by (simp add: modelA_current deployedCount_def GetDeployedPackage_clusterDeployed)
  have h4: "(1::nat) \<le> 1" by simp
  note t = reset_holds_progress_at_zero [OF tickReady_modelA h2 h3 h4]
  have a: "resetFlag (ticksRun [clusterEmpty] (modelA, True)) = Some True"
    using t [THEN conjunct1, rule_format, of 1] by (simp del: ticksRun.simps)
  have b: "currentPercent (ticksRun [clusterEmpty, clusterDeployed []] (modelA, True)) = Some 0"
    using t [THEN conjunct2, THEN conjunct1, rule_format, of 2] by (simp del: ticksRun.simps)
  have c: "resetFlag (ticksRun [clusterEmpty, clusterDeployed [], clusterDeployed [''c1'']] (modelA, True))
       = Some False"
    using t [THEN conjunct2, THEN conjunct2, THEN conjunct1] by (simp del: ticksRun.simps)
  have d: "currentPercent
         (ticksRun [clusterEmpty, clusterDeployed [], clusterDeployed [''c1'']] (modelA, True))
       = Some 0"
    using t [THEN conjunct2, THEN conjunct2, THEN conjunct2] by (simp del: ticksRun.simps)
  show ?thesis
    using h2 h3 a b c d tickReady_modelA by (simp add: modelA_current del: ticksRun.simps)
qed

lemma modelA_complete_run:
  "deliver [(clusterEmpty, StringMsg ''complete:a''), (clusterEmpty, TickMsg)] (modelA, True)
     = ticksRun [clusterEmpty] (modelA\<lparr>complete := [True]\<rparr>, True)"
  by (simp add: Update_def onString_def Split_def index_def modelA_def split: sum.splits)

lemma zero_total_run:
  "deliver [(clusterDeployed [''c1''], StringMsg ''totalPackages:1''),
            (clusterDeployed [''c1''], StringMsg ''package:a''),
            (clusterDeployed [''c1''], StringMsg ''idx:0''),
            (clusterDeployed [''c1''], StringMsg ''totalComponents:0'')] (InitModel True [], False)
   = Inr (modelA\<lparr>totalComponentsPerPkg := [0]\<rparr>, True)"
  by (simp add: Update_def onString_def Split_def index_def InitModel_def modelA_def
      GetDeployedPackage_clusterDeployed Atoi_def digitVal_def)

text \<open>
  Outside that, two runs of package \<open>a\<close>, found with one component deployed at its
  package event, so that the flag is set. In the first the package is reported
  complete and the next tick sees no deployed component: the tick sets the bar to
  100 percent and leaves the flag set. In the second the package has a component
  total of 0 and the tick sees a deployed component: the tick sets nothing and
  leaves the flag set.
\<close>

theorem completed_package_shows_full_with_flag_set:
  "showsNone clusterEmpty ''a''
   \<and> currentPercent
        (deliver (eventsA (clusterDeployed [''c1''])
                  @ [(clusterEmpty, StringMsg ''complete:a''), (clusterEmpty, TickMsg)])
           (InitModel True [], False)) = Some 1
   \<and> resetFlag
        (deliver (eventsA (clusterDeployed [''c1''])
                  @ [(clusterEmpty, StringMsg ''complete:a''), (clusterEmpty, TickMsg)])
           (InitModel True [], False)) = Some True
   \<and> deployedCount (clusterDeployed [''c1'']) ''a'' = Some 1
   \<and> currentPercent
        (deliver ([(clusterDeployed [''c1''], StringMsg ''totalPackages:1''),
                   (clusterDeployed [''c1''], StringMsg ''package:a''),
                   (clusterDeployed [''c1''], StringMsg ''idx:0''),
                   (clusterDeployed [''c1''], StringMsg ''totalComponents:0'')]
                  @ [(clusterDeployed [''c1''], TickMsg)])
           (InitModel True [], False)) = Some 0
   \<and> resetFlag
        (deliver ([(clusterDeployed [''c1''], StringMsg ''totalPackages:1''),
                   (clusterDeployed [''c1''], StringMsg ''package:a''),
                   (clusterDeployed [''c1''], StringMsg ''idx:0''),
                   (clusterDeployed [''c1''], StringMsg ''totalComponents:0'')]
                  @ [(clusterDeployed [''c1''], TickMsg)])
           (InitModel True [], False)) = Some True"
  by (simp add: deliver_append eventsA_run modelA_complete_run zero_total_run
        del: deliver.simps ticksRun.simps append.simps)
     (simp add: showsNone_def deployedCount_def GetDeployedPackage_clusterDeployed
      GetDeployedPackage_clusterEmpty Update_def onTick_def onTickComplete_def tickProgress_def
      modelA_def inRange_def currentPercent_def resetFlag_def SetPercent_def Percent_def
      progress_New_def spinner_New_def spinner_Update_def Let_def)

section \<open>Progress on a tick\<close>

lemma Split_package: "CHR '':'' \<notin> set name \<Longrightarrow> Split (''package:'' @ name) CHR '':'' = [''package'', name]"
  by (simp add: Split_def splitFrom_no_sep)

lemma package_event_sets_flag:
  assumes "deployedCount cl name = Some k" and "1 \<le> k" and "CHR '':'' \<notin> set name"
  shows "Update cl False (StringMsg (''package:'' @ name)) (m, r)
           = Inr ((m\<lparr>pkgNames := pkgNames m @ [name]\<rparr>, True), Batch [])"
proof -
  from deployedCount_cases [OF assms(1)] obtain d where
    d: "GetDeployedPackage cl name = Inr (Some d)" "length (DeployedComponents d) = k"
    by blast
  have "DeployedComponents d \<noteq> []" using d(2) assms(2) by auto
  then show ?thesis
    using Split_package [OF assms(3)] d(1)
    by (simp add: Update_def onString_def index_def del: append.simps)
qed

text \<open>
  C2 (as the code has it). For a package that is being deployed, with a component
  total \<open>n > 0\<close>, whose record shows \<open>k \<ge> 1\<close> deployed components: a tick with the reset
  flag clear sets the bar to \<open>k / n\<close>, capped at 1. The package event of a package
  whose record shows a deployed component sets the reset flag; with the flag set the
  first tick sets the bar to 0, and the tick after it sets \<open>k / n\<close>.
\<close>

theorem tick_percent_is_deployed_over_total:
  assumes "tickReady m"
    and "deployedCount cl (pkgNames m ! nat (pkgIdx m)) = Some k" and "1 \<le> k"
    and "CHR '':'' \<notin> set (pkgNames m ! nat (pkgIdx m))"
  shows "currentPercent (ticksRun [cl] (m, False))
           = Some (min 1 (of_nat k / of_int (totalComponentsPerPkg m ! nat (pkgIdx m))))
       \<and> resetFlag (deliver [(cl, StringMsg (''package:'' @ pkgNames m ! nat (pkgIdx m)))] (m0, r0))
           = Some True
       \<and> currentPercent (ticksRun [cl] (m, True)) = Some 0
       \<and> currentPercent (ticksRun [cl, cl] (m, True))
           = Some (min 1 (of_nat k / of_int (totalComponentsPerPkg m ! nat (pkgIdx m))))"
proof -
  from deployedCount_cases [OF assms(2)] obtain d where
    d: "GetDeployedPackage cl (pkgNames m ! nat (pkgIdx m)) = Inr (Some d)"
      "length (DeployedComponents d) = k"
    by blast
  have nonempty: "DeployedComponents d \<noteq> []" using d(2) assms(3) by auto
  have bars: "inRange (progressBars m') (pkgIdx m')" "pkgIdx m' = pkgIdx m"
    "pkgNames m' = pkgNames m" "totalComponentsPerPkg m' = totalComponentsPerPkg m"
    if "sameRun m m'" for m'
    using tickReady_sameRun [OF assms(1) that] that by (simp_all add: tickReady_def sameRun_def)
  from tick_flag_clear [OF assms(1) d(1)] obtain m1 c1 where
    m1: "Update cl False TickMsg (m, False) = Inr ((m1, False), c1)" "sameRun m m1"
      "Percent (progressBars m1 ! nat (pkgIdx m))
         = min 1 (of_nat k / of_int (totalComponentsPerPkg m ! nat (pkgIdx m)))"
    using d(2) by auto
  have a: "currentPercent (ticksRun [cl] (m, False))
           = Some (min 1 (of_nat k / of_int (totalComponentsPerPkg m ! nat (pkgIdx m))))"
    using m1 bars [OF m1(2)] by (simp add: currentPercent_def)
  have b: "resetFlag (deliver [(cl, StringMsg (''package:'' @ pkgNames m ! nat (pkgIdx m)))] (m0, r0))
           = Some True"
    using package_event_sets_flag [OF assms(2,3,4), of m0 r0]
    by (simp add: resetFlag_def del: append.simps)
  from tick_flag_set [OF assms(1) d(1)] nonempty obtain m2 tick_percent_is_deployed_over_total where
    m2: "Update cl False TickMsg (m, True) = Inr ((m2, False), tick_percent_is_deployed_over_total)" "sameRun m m2"
      "Percent (progressBars m2 ! nat (pkgIdx m)) = 0"
    by auto
  have c: "currentPercent (ticksRun [cl] (m, True)) = Some 0"
    using m2 bars [OF m2(2)] by (simp add: currentPercent_def)
  have ready2: "tickReady m2"
    using assms(1) m2(2) by (rule tickReady_sameRun)
  have d2: "GetDeployedPackage cl (pkgNames m2 ! nat (pkgIdx m2)) = Inr (Some d)"
    using d(1) bars [OF m2(2)] by simp
  from tick_flag_clear [OF ready2 d2] obtain m3 c3 where
    m3: "Update cl False TickMsg (m2, False) = Inr ((m3, False), c3)" "sameRun m2 m3"
      "Percent (progressBars m3 ! nat (pkgIdx m2))
         = min 1 (of_nat k / of_int (totalComponentsPerPkg m2 ! nat (pkgIdx m2)))"
    using d(2) by auto
  have s3: "sameRun m m3"
    using m2(2) m3(2) by (rule sameRun_trans)
  have e: "currentPercent (ticksRun [cl, cl] (m, True))
           = Some (min 1 (of_nat k / of_int (totalComponentsPerPkg m ! nat (pkgIdx m))))"
    using m2(1) m3(1,3) bars [OF m2(2)] bars [OF s3] by (simp add: currentPercent_def)
  show ?thesis
    using a b c e by blast
qed


theorem tick_percent_is_deployed_over_total_witness:
  "tickReady modelA
   \<and> deployedCount (clusterDeployed [''c1'']) ''a'' = Some 1
   \<and> CHR '':'' \<notin> set ''a''
   \<and> currentPercent (ticksRun [clusterDeployed [''c1'']] (modelA, False)) = Some (1 / 2)
   \<and> resetFlag (deliver [(clusterDeployed [''c1''], StringMsg ''package:a'')]
                   (InitModel True [], False)) = Some True
   \<and> currentPercent (ticksRun [clusterDeployed [''c1'']] (modelA, True)) = Some 0
   \<and> currentPercent (ticksRun [clusterDeployed [''c1''], clusterDeployed [''c1'']] (modelA, True))
       = Some (1 / 2)"
proof -
  have h2: "deployedCount (clusterDeployed [''c1'']) (pkgNames modelA ! nat (pkgIdx modelA)) = Some 1"
    by (simp add: modelA_current deployedCount_def GetDeployedPackage_clusterDeployed)
  have h3: "(1::nat) \<le> 1" by simp
  have h4: "CHR '':'' \<notin> set (pkgNames modelA ! nat (pkgIdx modelA))"
    by (simp add: modelA_current)
  have n: "min 1 (of_nat 1 / of_int (totalComponentsPerPkg modelA ! nat (pkgIdx modelA))) = (1 / 2 :: rat)"
    by (simp add: modelA_def)
  note t = tick_percent_is_deployed_over_total [OF tickReady_modelA h2 h3 h4, of "InitModel True []" False, unfolded n modelA_current]
  show ?thesis
    using t h2 h4 tickReady_modelA by (simp add: modelA_current del: ticksRun.simps deliver.simps)
qed

lemma modelA_first_tick:
  "currentPercent (deliver [(clusterDeployed [''c1''], TickMsg)] (modelA, True)) = Some 0"
  by (simp add: Update_def onTick_def tickProgress_def modelA_def inRange_def currentPercent_def
      GetDeployedPackage_clusterDeployed SetPercent_def Percent_def progress_New_def
      spinner_New_def spinner_Update_def Let_def)

text \<open>
  The run of package \<open>a\<close> (two components), found with one component deployed: the
  first tick sets 0, not one half.
\<close>

theorem first_tick_of_deployed_package_is_zero:
  "deployedCount (clusterDeployed [''c1'']) ''a'' = Some 1
   \<and> currentPercent
        (deliver (eventsA (clusterDeployed [''c1'']) @ [(clusterDeployed [''c1''], TickMsg)])
           (InitModel True [], False)) = Some 0
   \<and> (0::rat) \<noteq> 1 / 2"
  by (simp add: deliver_append eventsA_run modelA_first_tick deployedCount_def
      GetDeployedPackage_clusterDeployed del: deliver.simps)

section \<open>The last package completes\<close>

lemma successLoop_eq:
  "i + n \<le> length names \<Longrightarrow>
   successLoop names i n acc = Inr (acc @ map (\<lambda>j. PrintlnSuccess (names ! j)) [i..<i + n])"
proof (induction n arbitrary: i acc)
  case 0
  then show ?case by simp
next
  case (Suc n)
  then show ?case by (simp add: upt_conv_Cons del: upt_Suc)
qed

text \<open>
  C8. On a tick that finds the completion flag of the last package
  (\<open>pkgIdx = totalPkgs - 1\<close>), the command returned is one sequence: the bar, spinner
  and tick commands and the rule, then one success line per package in index order
  \<open>0 .. totalPkgs - 1\<close>, then \<open>Quit\<close>; the model is marked done. The names of all
  \<open>totalPkgs\<close> packages have to be there, as the loop indexes \<open>pkgNames\<close>.
\<close>

theorem last_package_complete_notifies_all:
  assumes "inRange (complete m) (pkgIdx m)" and "complete m ! nat (pkgIdx m)"
    and "pkgIdx m = totalPkgs m - 1"
    and "inRange (progressBars m) (pkgIdx m)" and "inRange (spinners m) (pkgIdx m)"
    and "nat (totalPkgs m) \<le> length (pkgNames m)"
  shows "\<exists>m'. Update cl False TickMsg (m, r) =
           Inr ((m', r),
                Sequence ([FrameCmd, SpinnerTickCmd, TickCmd, PrintlnLine]
                          @ map (\<lambda>i. PrintlnSuccess (pkgNames m ! i)) [0..<nat (totalPkgs m)]
                          @ [Quit]))
         \<and> done' m' \<and> pkgNames m' = pkgNames m"
  using assms successLoop_eq [of 0 "nat (totalPkgs m)" "pkgNames m" "[FrameCmd, SpinnerTickCmd, TickCmd, PrintlnLine]"]
  by (simp add: Update_def onTick_def onTickComplete_def inRange_def Let_def)

theorem last_package_complete_notifies_all_witness:
  "inRange (complete modelAB) (pkgIdx modelAB) \<and> complete modelAB ! nat (pkgIdx modelAB)
   \<and> pkgIdx modelAB = totalPkgs modelAB - 1
   \<and> inRange (progressBars modelAB) (pkgIdx modelAB) \<and> inRange (spinners modelAB) (pkgIdx modelAB)
   \<and> nat (totalPkgs modelAB) \<le> length (pkgNames modelAB)
   \<and> (\<exists>m'. Update clusterEmpty False TickMsg (modelAB, False) =
           Inr ((m', False),
                Sequence [FrameCmd, SpinnerTickCmd, TickCmd, PrintlnLine,
                          PrintlnSuccess ''a'', PrintlnSuccess ''b'', Quit])
         \<and> done' m' \<and> pkgNames m' = [''a'', ''b''])"
proof -
  have h: "inRange (complete modelAB) (pkgIdx modelAB)" "complete modelAB ! nat (pkgIdx modelAB)"
    "pkgIdx modelAB = totalPkgs modelAB - 1"
    "inRange (progressBars modelAB) (pkgIdx modelAB)" "inRange (spinners modelAB) (pkgIdx modelAB)"
    "nat (totalPkgs modelAB) \<le> length (pkgNames modelAB)"
    by (simp_all add: modelAB_def inRange_def)
  have l: "map (\<lambda>i. PrintlnSuccess (pkgNames modelAB ! i)) [0..<nat (totalPkgs modelAB)]
             = [PrintlnSuccess ''a'', PrintlnSuccess ''b'']"
    by (simp add: modelAB_def upt_conv_Cons del: upt_Suc)
  have p: "pkgNames modelAB = [''a'', ''b'']"
    by (simp add: modelAB_def)
  note t = last_package_complete_notifies_all [OF h, of clusterEmpty False, unfolded l, unfolded p]
  show ?thesis
    by (intro conjI h) (use t in simp)
qed

section \<open>Confirmation keys\<close>

text \<open>
  C7. The key \<open>n\<close> (or \<open>N\<close>) leaves the model as it is and returns an empty batch: no
  \<open>Quit\<close> is issued, whereas \<open>q\<close> returns \<open>Quit\<close>. A program that is waiting for
  confirmation and receives \<open>n\<close> keeps waiting; it has not called the bundle client.
\<close>

theorem negative_answer_does_not_quit:
  "Update cl False (KeyMsg ''n'') (m, r) = Inr ((m, r), Batch [])
   \<and> Update cl False (KeyMsg ''N'') (m, r) = Inr ((m, r), Batch [])
   \<and> \<not> hasCmd Quit (Batch [])
   \<and> Update cl False (KeyMsg ''q'') (m, r) = Inr ((m, r), Single Quit)
   \<and> Program_Run b [Deliver cl (OperationMsg DeployOp), Deliver cl (KeyMsg ''n'')]
        (InitModel False yaml, False) \<lparr>log = [], fatalChan = None, launched = 0\<rparr>
      = (Waiting (InitModel False yaml, False), \<lparr>log = [], fatalChan = None, launched = 0\<rparr>)"
  by (cases m) (simp add: Update_def onKey_def onOperation_def InitModel_def)

section \<open>The deployed-state query\<close>

text \<open>
  C9 (as the code has it). \<open>GetDeployedPackage\<close> returns nil when the secret cannot be
  read; when the secret is read and its payload does not decode, it panics; it
  returns nil otherwise only for a payload that decodes to null.
\<close>

theorem GetDeployedPackage_none_or_panic:
  "(GetSecret cl ''zarf'' (ZarfPackagePrefix cl @ name) = None
      \<longrightarrow> GetDeployedPackage cl name = Inr None)
   \<and> (\<forall>secretData.
         GetSecret cl ''zarf'' (ZarfPackagePrefix cl @ name) = Some secretData
         \<and> Unmarshal cl (case secretData ''data'' of None \<Rightarrow> [] | Some bs \<Rightarrow> bs) = None
         \<longrightarrow> GetDeployedPackage cl name = Inl Panic0)
   \<and> (GetDeployedPackage cl name = Inr None
        \<longleftrightarrow> GetSecret cl ''zarf'' (ZarfPackagePrefix cl @ name) = None
            \<or> (\<exists>secretData.
                 GetSecret cl ''zarf'' (ZarfPackagePrefix cl @ name) = Some secretData
                 \<and> Unmarshal cl (case secretData ''data'' of None \<Rightarrow> [] | Some bs \<Rightarrow> bs)
                     = Some None))"
  by (auto simp add: GetDeployedPackage_def split: option.splits)

theorem GetDeployedPackage_none_or_panic_witness:
  "GetSecret clusterEmpty ''zarf'' (ZarfPackagePrefix clusterEmpty @ ''a'') = None
   \<and> GetDeployedPackage clusterEmpty ''a'' = Inr None"
proof -
  have h: "GetSecret clusterEmpty ''zarf'' (ZarfPackagePrefix clusterEmpty @ ''a'') = None"
    by (simp add: clusterEmpty_def)
  from GetDeployedPackage_none_or_panic [of clusterEmpty "''a''"] h show ?thesis
    by blast
qed

text \<open>A secret whose payload does not decode: the query panics.\<close>

theorem GetDeployedPackage_decode_failure_panics:
  "GetSecret clusterCorrupt ''zarf'' (ZarfPackagePrefix clusterCorrupt @ ''a'')
     = Some [''data'' \<mapsto> ''garbage'']
   \<and> Unmarshal clusterCorrupt ''garbage'' = None
   \<and> GetDeployedPackage clusterCorrupt ''a'' = Inl Panic0"
  by (simp add: GetDeployedPackage_def clusterCorrupt_def)

section \<open>The verification loop and the download\<close>

lemma percVerified_2_of_2: "percVerified 2 2 = Some 100"
  by code_simp

lemma percVerified_2_of_1: "percVerified 2 1 = Some 200"
  by code_simp

lemma percVerified_Suc:
  "percVerified (Suc (Suc 0)) (Suc (Suc 0)) = Some 100" "percVerified 2 (Suc 0) = Some 200"
  by code_simp+


lemma percDownloaded_examples:
  "percDownloaded 5 20 = Some 25" "percDownloaded 25 20 = Some 125"
  by code_simp+

lemma filter_upt_Suc:
  "filter P [0..<Suc n] = (if P 0 then [0] else []) @ map Suc (filter (\<lambda>i. P (Suc i)) [0..<n])"
proof -
  have "[0..<Suc n] = 0 # map Suc [0..<n]"
    by (simp add: upt_conv_Cons map_Suc_upt del: upt_Suc)
  then show ?thesis
    by (simp add: filter_map comp_def del: upt_Suc)
qed

text \<open>What the loop leaves behind when it ends without a failure.\<close>

lemma verifyLayers_result:
  "verifyLayers rm r nLayers layers st = Inr st' \<Longrightarrow>
   sentEvents st' = sentEvents st
       @ map (\<lambda>i. Verifying (percVerified (numLayersVerified st + Suc i) nLayers))
           (filter (\<lambda>i. BlobExists rm (layers ! i) = Inr True) [0..<length layers])
   \<and> layersInBundle st' = layersInBundle st @ filter (\<lambda>l. BlobExists rm l = Inr True) layers
   \<and> numLayersVerified st' = numLayersVerified st + length layers"
proof (induction layers arbitrary: st)
  case Nil
  then show ?case by simp
next
  case (Cons layer rest)
  show ?case
  proof (cases "BlobExists rm layer")
    case (Inl err)
    with Cons.prems show ?thesis by simp
  next
    case (Inr ok)
    show ?thesis
    proof (cases ok)
      case False
      with Inr Cons.prems have
        "verifyLayers rm r nLayers rest (st\<lparr>numLayersVerified := Suc (numLayersVerified st)\<rparr>) = Inr st'"
        by (simp add: Let_def)
      from Cons.IH [OF this] Inr False show ?thesis
        by (simp add: filter_upt_Suc del: upt_Suc)
    next
      case True
      define st2 where "st2 = st\<lparr>numLayersVerified := Suc (numLayersVerified st),
            sentEvents := sentEvents st @ [Verifying (percVerified (Suc (numLayersVerified st)) nLayers)],
            estimatedBytes := estimatedBytes st + Size layer,
            layersInBundle := layersInBundle st @ [layer]\<rparr>"
      from Inr True Cons.prems have
        "verifyLayers rm r nLayers rest st2 = Inr st'
         \<or> verifyLayers rm r nLayers rest (st2\<lparr>layersToPull := layersToPull st2 @ [layer]\<rparr>) = Inr st'"
        by (auto simp add: Let_def st2_def split: if_splits option.splits sum.splits)
      then show ?thesis
      proof
        assume "verifyLayers rm r nLayers rest st2 = Inr st'"
        from Cons.IH [OF this] Inr True show ?thesis
          by (simp add: filter_upt_Suc st2_def del: upt_Suc)
      next
        assume "verifyLayers rm r nLayers rest (st2\<lparr>layersToPull := layersToPull st2 @ [layer]\<rparr>) = Inr st'"
        from Cons.IH [OF this] Inr True show ?thesis
          by (simp add: filter_upt_Suc st2_def del: upt_Suc)
      qed
    qed
  qed
qed


lemma isVerifying_postCopy: "filter isVerifying (postCopy got est ds) = []"
  by (induction ds arbitrary: got) auto

lemma download_ok:
  assumes "FetchRoot rm = Inr rootManifest" and "rootManifest (PkgManifestSHA r) = Some d"
    and "FetchManifest rm (d\<lparr>MediaType := ZarfLayerMediaTypeBlob rm\<rparr>) = (Some layers, None)"
    and "downloadPkgFromRemoteBundle rm r = (r', ev, present, None)"
  shows "present = d\<lparr>MediaType := ZarfLayerMediaTypeBlob rm\<rparr>
                     # filter (\<lambda>l. BlobExists rm l = Inr True) layers"
    and "filter isVerifying ev
           = map (\<lambda>i. Verifying (percVerified (Suc i) (length layers)))
               (filter (\<lambda>i. BlobExists rm (layers ! i) = Inr True) [0..<length layers])"
    and "r' = (if int (length layers) \<noteq> int (length present) - 1 then r\<lparr>isPartial := True\<rparr> else r)"
proof -
  define st0 where "st0 = \<lparr>estimatedBytes = 0,
      layersToPull = [d\<lparr>MediaType := ZarfLayerMediaTypeBlob rm\<rparr>],
      layersInBundle = [d\<lparr>MediaType := ZarfLayerMediaTypeBlob rm\<rparr>],
      numLayersVerified = 0, sentEvents = []\<rparr>"
  from assms obtain st copied where
    loop: "verifyLayers rm r (length layers) layers st0 = Inr st"
    and ev: "ev = sentEvents st @ postCopy 0 (estimatedBytes st) copied"
    and present: "present = layersInBundle st"
    and r': "r' = (if int (length layers) \<noteq> int (length (layersInBundle st)) - 1
                   then r\<lparr>isPartial := True\<rparr> else r)"
    by (auto simp add: downloadPkgFromRemoteBundle_def Let_def st0_def
        split: sum.splits option.splits prod.splits)
  note res = verifyLayers_result [OF loop]
  from res present show "present = d\<lparr>MediaType := ZarfLayerMediaTypeBlob rm\<rparr>
                     # filter (\<lambda>l. BlobExists rm l = Inr True) layers"
    by (simp add: st0_def)
  have "filter isVerifying (sentEvents st) = sentEvents st"
    using res by (simp add: st0_def filter_map comp_def)
  with res ev show "filter isVerifying ev
           = map (\<lambda>i. Verifying (percVerified (Suc i) (length layers)))
               (filter (\<lambda>i. BlobExists rm (layers ! i) = Inr True) [0..<length layers])"
    by (simp add: st0_def isVerifying_postCopy)
  from r' present show "r' = (if int (length layers) \<noteq> int (length present) - 1
                             then r\<lparr>isPartial := True\<rparr> else r)"
    by simp
qed


lemma remoteTwo_fetch:
  "FetchRoot remoteTwo = Inr (\<lambda>sha. if sha = ''mm'' then Some manifestDesc else None)"
  "(if PkgManifestSHA bundleA = ''mm'' then Some manifestDesc else None) = Some manifestDesc"
  "FetchManifest remoteTwo (manifestDesc\<lparr>MediaType := ZarfLayerMediaTypeBlob remoteTwo\<rparr>)
     = (Some [layerAbsent, layerPresent], None)"
  by (simp_all add: remoteTwo_def bundleA_def)


lemma remoteTwo_download:
  "downloadPkgFromRemoteBundle remoteTwo bundleA
     = (bundleA\<lparr>isPartial := True\<rparr>,
        [Verifying (Some 100), Downloading (Some 25), Downloading (Some 125)],
        [manifestDesc\<lparr>MediaType := ZarfLayerMediaTypeBlob remoteTwo\<rparr>, layerPresent],
        None)"
  by (simp add: downloadPkgFromRemoteBundle_def remoteTwo_def bundleA_def layerAbsent_def
      layerPresent_def manifestDesc_def annotation_def Encoded_def sublist_code Let_def
      percVerified_Suc percDownloaded_examples)




section \<open>The calls of LoadPackage\<close>

lemma precedes_Nil [simp]: "precedes P Q [] = False"
  by (simp add: precedes_def)

lemma precedes_Cons [simp]:
  "precedes P Q (x # xs) = (if P x then list_ex Q xs else precedes P Q xs)"
  by (simp add: precedes_def)

lemma precedes_append_none [simp]:
  "\<forall>s \<in> set pre. \<not> P s \<Longrightarrow> precedes P Q (pre @ post) = precedes P Q post"
  by (induction pre) auto

lemma precedes_none: "\<forall>s \<in> set tr. \<not> P s \<Longrightarrow> \<not> precedes P Q tr"
  by (induction tr) auto

lemma unarchiveComponents_ext:
  "\<exists>ext. fst (unarchiveComponents ops cs tr) = tr @ ext
         \<and> (\<forall>s \<in> set ext. \<not> isValidate s \<and> \<not> isFilterApply s)"
proof (induction cs arbitrary: tr)
  case Nil
  then show ?case by simp
next
  case (Cons c cs)
  show ?case
  proof (cases "Unarchive ops c")
    case UnarchiveOk
    from Cons [of "tr @ [UnarchiveStep c]"] UnarchiveOk show ?thesis by auto
  next
    case NotLoaded
    show ?thesis
    proof (cases "Create ops c")
      case None
      from Cons [of "tr @ [UnarchiveStep c, CreateStep c]"] NotLoaded None show ?thesis by auto
    next
      case (Some err)
      with NotLoaded show ?thesis by simp
    qed
  next
    case (UnarchiveFailed err)
    then show ?thesis by simp
  qed
qed

lemma unarchiveAllSteps_ext:
  "\<exists>ext. fst (unarchiveAllSteps ops cs tr) = tr @ ext
         \<and> (\<forall>s \<in> set ext. \<not> isValidate s \<and> \<not> isFilterApply s)"
proof -
  from unarchiveComponents_ext [of ops cs tr] obtain ext where
    ext: "fst (unarchiveComponents ops cs tr) = tr @ ext"
      "\<forall>s \<in> set ext. \<not> isValidate s \<and> \<not> isFilterApply s"
    by blast
  show ?thesis
  proof (cases "unarchiveComponents ops cs tr")
    case (Pair tr1 e)
    with ext have tr1: "tr1 = tr @ ext" by simp
    show ?thesis
    proof (cases "e = None \<and> SBOMsPath ops \<noteq> []")
      case True
      with Pair tr1 have "fst (unarchiveAllSteps ops cs tr) = tr @ (ext @ [SBOMsUnarchiveStep])"
        by (simp add: unarchiveAllSteps_def)
      moreover have "\<forall>s \<in> set (ext @ [SBOMsUnarchiveStep]). \<not> isValidate s \<and> \<not> isFilterApply s"
        using ext(2) by simp
      ultimately show ?thesis by blast
    next
      case False
      with Pair tr1 have "fst (unarchiveAllSteps ops cs tr) = tr @ ext"
        by (auto simp add: unarchiveAllSteps_def split: option.splits)
      with ext(2) show ?thesis by blast
    qed
  qed
qed

text \<open>The calls of a run of \<open>LoadPackage\<close>, by the point at which it returns.\<close>

lemma LoadPackage_trace:
  assumes "LoadPackage rm ops u r = (r2, tr, pkg, err)"
  shows "\<exists>ev tail. tr = Download # map Send ev @ tail
           \<and> r2 = fst (downloadPkgFromRemoteBundle rm r)
           \<and> traceTail ops (isPartial r2) err tail"
proof (cases "downloadPkgFromRemoteBundle rm r")
  case (fields r1 ev layers derr)
  have concl: ?thesis if "tr = Download # map Send ev @ tail" and "r2 = r1"
    and "traceTail ops (isPartial r2) err tail" for tail
    using that fields by auto
  show ?thesis
  proof (cases derr)
    case (Some e)
    with fields assms have "tr = Download # map Send ev @ []" "r2 = r1"
      by (auto simp add: LoadPackage_def)
    then show ?thesis by (rule concl) (simp add: traceTail_def)
  next
    case None
    note dnone = None
    show ?thesis
    proof (cases "ReadYaml ops")
      case (Inl e)
      with fields dnone assms have "tr = Download # map Send ev @ [ReadYamlStep]" "r2 = r1"
        by (auto simp add: LoadPackage_def)
      then show ?thesis by (rule concl) (simp add: traceTail_def)
    next
      case (Inr p0)
      show ?thesis
      proof (cases "filterApply ops p0")
        case (Pair comps ferr)
        show ?thesis
        proof (cases ferr)
          case (Some e)
          with fields dnone Inr Pair assms
          have "tr = Download # map Send ev @ [ReadYamlStep, FilterApply]" "r2 = r1" "err = Some (Error e)"
            by (auto simp add: LoadPackage_def)
          then show ?thesis
            using Inr Pair Some by (intro concl) (auto simp add: traceTail_def)
        next
          case None
          note fnone = None
          define mid where "mid = [ReadYamlStep, FilterApply, Send (TotalComponents (length comps)),
                 SetFromLayers layers, Validate (AggregateChecksum p0) (isPartial r1)]"
          have tailOk: "traceTail ops (isPartial r1) e (mid @ ext)"
            if "\<forall>s \<in> set ext. \<not> isValidate s \<and> \<not> isFilterApply s" for ext e
            unfolding traceTail_def mid_def using that Inr Pair fnone
            by (intro disjI2) auto
          show ?thesis
          proof (cases "ValidatePackageIntegrity ops layers (AggregateChecksum p0) (isPartial r1)")
            case (Some e)
            with fields dnone Inr Pair fnone assms
            have "tr = Download # map Send ev @ (mid @ [])" "r2 = r1"
              by (auto simp add: LoadPackage_def mid_def)
            then show ?thesis
              using tailOk [of "[]"] by (intro concl) simp_all
          next
            case None
            note vnone = None
            show ?thesis
            proof (cases u)
              case False
              with fields dnone Inr Pair fnone vnone assms
              have "tr = Download # map Send ev @ (mid @ [NamespaceOverrides])" "r2 = r1"
                by (auto simp add: LoadPackage_def mid_def)
              then show ?thesis
                using tailOk [of "[NamespaceOverrides]"] by (intro concl) simp_all
            next
              case True
              from unarchiveAllSteps_ext [of ops comps "Download # map Send ev @ mid"] obtain ext where
                ext: "fst (unarchiveAllSteps ops comps (Download # map Send ev @ mid))
                        = (Download # map Send ev @ mid) @ ext"
                  "\<forall>s \<in> set ext. \<not> isValidate s \<and> \<not> isFilterApply s"
                by blast
              from fields dnone Inr Pair fnone vnone True assms ext(1)
              have trs: "tr = Download # map Send ev @ (mid @ ext)
                    \<or> tr = Download # map Send ev @ (mid @ (ext @ [NamespaceOverrides]))" and r2: "r2 = r1"
                by (auto simp add: LoadPackage_def Let_def mid_def split: prod.splits option.splits)
              from trs show ?thesis
              proof
                assume "tr = Download # map Send ev @ (mid @ ext)"
                then show ?thesis
                  using tailOk [OF ext(2)] r2 by (intro concl) simp_all
              next
                assume "tr = Download # map Send ev @ (mid @ (ext @ [NamespaceOverrides]))"
                moreover have "\<forall>s \<in> set (ext @ [NamespaceOverrides]). \<not> isValidate s \<and> \<not> isFilterApply s"
                  using ext(2) by simp
                ultimately show ?thesis
                  using tailOk [of "ext @ [NamespaceOverrides]"] r2 by (intro concl) simp_all
              qed
            qed
          qed
        qed
      qed
    qed
  qed
qed


text \<open>
  What \<open>LoadPackage\<close> returns once the download, the package definition and the filter
  are through.
\<close>

lemma LoadPackage_validated:
  assumes "downloadPkgFromRemoteBundle rm r = (r', ev, present, None)"
    and "ReadYaml ops = Inr p0" and "filterApply ops p0 = (comps, None)"
  shows "ValidatePackageIntegrity ops present (AggregateChecksum p0) (isPartial r') = Some e \<Longrightarrow>
         LoadPackage rm ops u r
           = (r', Download # map Send ev
                    @ [ReadYamlStep, FilterApply, Send (TotalComponents (length comps)),
                       SetFromLayers present, Validate (AggregateChecksum p0) (isPartial r')],
              emptyPackage, Some (Error e))"
    and "ValidatePackageIntegrity ops present (AggregateChecksum p0) (isPartial r') = None \<Longrightarrow> \<not> u \<Longrightarrow>
         LoadPackage rm ops u r
           = (r', Download # map Send ev
                    @ [ReadYamlStep, FilterApply, Send (TotalComponents (length comps)),
                       SetFromLayers present, Validate (AggregateChecksum p0) (isPartial r'),
                       NamespaceOverrides],
              (addNamespaceOverrides ops (p0\<lparr>Components := comps\<rparr>))\<lparr>MetadataName := PkgName r'\<rparr>,
              None)"
  using assms by (simp_all add: LoadPackage_def)

lemma LoadPackage_filter_failed:
  assumes "snd (snd (snd (downloadPkgFromRemoteBundle rm r))) = None"
    and "ReadYaml ops = Inr p0" and "snd (filterApply ops p0) = Some e"
  shows "LoadPackage rm ops u r
           = (fst (downloadPkgFromRemoteBundle rm r),
              Download # map Send (fst (snd (downloadPkgFromRemoteBundle rm r)))
                @ [ReadYamlStep, FilterApply],
              p0\<lparr>Components := fst (filterApply ops p0)\<rparr>, Some (Error e))"
  using assms
  by (cases "downloadPkgFromRemoteBundle rm r") (auto simp add: LoadPackage_def split: prod.splits)

lemma filter_all: "length (filter P xs) = length xs \<Longrightarrow> filter P xs = xs"
  by (metis filter_True length_filter_less linorder_not_less order_refl)

lemma remoteTwo_LoadPackage:
  "LoadPackage remoteTwo opsOk False bundleA
     = (bundleA\<lparr>isPartial := True\<rparr>,
        [Download, Send (Verifying (Some 100)), Send (Downloading (Some 25)),
         Send (Downloading (Some 125)), ReadYamlStep, FilterApply, Send (TotalComponents 2),
         SetFromLayers [manifestDesc\<lparr>MediaType := ZarfLayerMediaTypeBlob remoteTwo\<rparr>, layerPresent],
         Validate ''abc'' True, NamespaceOverrides],
        packageA\<lparr>MetadataName := ''a''\<rparr>, None)"
  by (simp add: LoadPackage_def remoteTwo_download opsOk_def packageA_def)
     (simp add: bundleA_def)

lemma remoteTwo_LoadPackage_fail:
  "LoadPackage remoteTwo opsBothFail False bundleA
     = (bundleA\<lparr>isPartial := True\<rparr>,
        [Download, Send (Verifying (Some 100)), Send (Downloading (Some 25)),
         Send (Downloading (Some 125)), ReadYamlStep, FilterApply],
        packageA\<lparr>Components := []\<rparr>, Some (Error ''component not found''))"
  by (simp add: LoadPackage_def remoteTwo_download opsBothFail_def opsOk_def packageA_def)

lemma LoadPackage_collapse:
  "LoadPackage rm ops u r
     = (fst (LoadPackage rm ops u r), fst (snd (LoadPackage rm ops u r)),
        fst (snd (snd (LoadPackage rm ops u r))), snd (snd (snd (LoadPackage rm ops u r))))"
  by simp

lemma opsSpec_facts:
  "ReadYaml opsSpec = Inr packageA"
  "filterApply opsSpec packageA = ([''c1'', ''c2''], None)"
  "ValidatePackageIntegrity opsSpec
     = specValidatePackageIntegrity (AggregateChecksum packageA)
         (manifestDesc\<lparr>MediaType := ZarfLayerMediaTypeBlob remoteTwo\<rparr> # [layerAbsent, layerPresent])"
  by (simp_all add: opsSpec_def opsOk_def packageA_def remoteTwo_def)

lemma strict_validation_fails:
  "specValidatePackageIntegrity ''abc''
     [manifestDesc\<lparr>MediaType := ZarfLayerMediaTypeBlob remoteTwo\<rparr>, layerAbsent, layerPresent]
     [manifestDesc\<lparr>MediaType := ZarfLayerMediaTypeBlob remoteTwo\<rparr>, layerPresent] ''abc'' False
     = Some ''content missing''"
  by (simp add: specValidatePackageIntegrity_def layerAbsent_def layerPresent_def manifestDesc_def
      remoteTwo_def)

text \<open>
  C4. For a source not yet marked partial whose download succeeds: the layers present
  locally are the manifest layer and every layer confirmed present; the source is
  marked partial exactly when they are fewer than the manifest layer plus the layers
  the manifest declares. With the package definition read and the filter applied,
  the validation is called on those layers with that flag: its error is the error
  \<open>LoadPackage\<close> returns, and when it accepts, \<open>LoadPackage\<close> goes on. When the
  validation is the one the spec describes and the content has the declared checksum,
  \<open>LoadPackage\<close> does not fail, whether layers are absent or not.
\<close>

theorem partial_iff_fewer_layers_than_declared:
  assumes "\<not> isPartial r"
    and "FetchRoot rm = Inr rootManifest" and "rootManifest (PkgManifestSHA r) = Some d"
    and "FetchManifest rm (d\<lparr>MediaType := ZarfLayerMediaTypeBlob rm\<rparr>) = (Some layers, None)"
    and "downloadPkgFromRemoteBundle rm r = (r', ev, present, None)"
  shows "present = d\<lparr>MediaType := ZarfLayerMediaTypeBlob rm\<rparr>
                     # filter (\<lambda>l. BlobExists rm l = Inr True) layers
       \<and> (isPartial r' \<longleftrightarrow> length present < 1 + length layers)
       \<and> (\<forall>p0 comps e.
             ReadYaml ops = Inr p0 \<and> filterApply ops p0 = (comps, None)
             \<and> ValidatePackageIntegrity ops present (AggregateChecksum p0) (isPartial r') = Some e
             \<longrightarrow> returnedError (LoadPackage rm ops u r) = Some (Error e))
       \<and> (\<forall>p0 comps.
             ReadYaml ops = Inr p0 \<and> filterApply ops p0 = (comps, None) \<and> \<not> u
             \<and> ValidatePackageIntegrity ops present (AggregateChecksum p0) (isPartial r') = None
             \<longrightarrow> returnedError (LoadPackage rm ops u r) = None)
       \<and> (\<forall>p0 comps.
             ReadYaml ops = Inr p0 \<and> filterApply ops p0 = (comps, None) \<and> \<not> u
             \<and> ValidatePackageIntegrity ops
                 = specValidatePackageIntegrity (AggregateChecksum p0)
                     (d\<lparr>MediaType := ZarfLayerMediaTypeBlob rm\<rparr> # layers)
             \<longrightarrow> returnedError (LoadPackage rm ops u r) = None)"
proof -
  note ok = download_ok [OF assms(2-5)]
  have le: "length present \<le> 1 + length layers"
    unfolding ok(1) by simp
  have iff: "isPartial r' \<longleftrightarrow> length present < 1 + length layers"
    using assms(1) le ok(3) by (auto split: if_splits)
  have failing: "returnedError (LoadPackage rm ops u r) = Some (Error e)"
    if "ReadYaml ops = Inr p0" "filterApply ops p0 = (comps, None)"
      "ValidatePackageIntegrity ops present (AggregateChecksum p0) (isPartial r') = Some e"
    for p0 comps e
    using LoadPackage_validated(1) [OF assms(5) that] by (simp add: returnedError_def)
  have passing: "returnedError (LoadPackage rm ops u r) = None"
    if "ReadYaml ops = Inr p0" "filterApply ops p0 = (comps, None)" "\<not> u"
      "ValidatePackageIntegrity ops present (AggregateChecksum p0) (isPartial r') = None"
    for p0 comps
    using LoadPackage_validated(2) [OF assms(5) that(1,2,4,3)] by (simp add: returnedError_def)
  have tolerant: "specValidatePackageIntegrity c
                     (d\<lparr>MediaType := ZarfLayerMediaTypeBlob rm\<rparr> # layers) present c (isPartial r') = None"
    for c
  proof (cases "isPartial r'")
    case True
    then show ?thesis by (simp add: specValidatePackageIntegrity_def)
  next
    case False
    with iff le have "length present = 1 + length layers" by simp
    then have "filter (\<lambda>l. BlobExists rm l = Inr True) layers = layers"
      unfolding ok(1) by (intro filter_all) simp
    then have "present = d\<lparr>MediaType := ZarfLayerMediaTypeBlob rm\<rparr> # layers"
      using ok(1) by simp
    then show ?thesis
      by (simp add: specValidatePackageIntegrity_def list_all_iff)
  qed
  have spec: "returnedError (LoadPackage rm ops u r) = None"
    if "ReadYaml ops = Inr p0" "filterApply ops p0 = (comps, None)" "\<not> u"
      "ValidatePackageIntegrity ops
         = specValidatePackageIntegrity (AggregateChecksum p0)
             (d\<lparr>MediaType := ZarfLayerMediaTypeBlob rm\<rparr> # layers)"
    for p0 comps
    using passing [OF that(1,2,3)] tolerant [of "AggregateChecksum p0"] that(4) by simp
  show ?thesis
    using ok(1) iff failing passing spec by blast
qed

theorem partial_iff_fewer_layers_than_declared_witness:
  "\<not> isPartial bundleA
   \<and> downloadPkgFromRemoteBundle remoteTwo bundleA
       = (bundleA\<lparr>isPartial := True\<rparr>,
          [Verifying (Some 100), Downloading (Some 25), Downloading (Some 125)],
          [manifestDesc\<lparr>MediaType := ZarfLayerMediaTypeBlob remoteTwo\<rparr>, layerPresent],
          None)
   \<and> isPartial (bundleA\<lparr>isPartial := True\<rparr>)
   \<and> length [manifestDesc\<lparr>MediaType := ZarfLayerMediaTypeBlob remoteTwo\<rparr>, layerPresent]
        < 1 + length [layerAbsent, layerPresent]
   \<and> ReadYaml opsSpec = Inr packageA
   \<and> filterApply opsSpec packageA = ([''c1'', ''c2''], None)
   \<and> ValidatePackageIntegrity opsSpec
       = specValidatePackageIntegrity (AggregateChecksum packageA)
           (manifestDesc\<lparr>MediaType := ZarfLayerMediaTypeBlob remoteTwo\<rparr> # [layerAbsent, layerPresent])
   \<and> returnedError (LoadPackage remoteTwo opsSpec False bundleA) = None
   \<and> specValidatePackageIntegrity ''abc''
        [manifestDesc\<lparr>MediaType := ZarfLayerMediaTypeBlob remoteTwo\<rparr>, layerAbsent, layerPresent]
        [manifestDesc\<lparr>MediaType := ZarfLayerMediaTypeBlob remoteTwo\<rparr>, layerPresent] ''abc'' False
       = Some ''content missing''"
proof -
  have h: "\<not> isPartial bundleA" by (simp add: bundleA_def)
  note t = partial_iff_fewer_layers_than_declared [OF h remoteTwo_fetch remoteTwo_download, of opsSpec False]
  from t have a: "isPartial (bundleA\<lparr>isPartial := True\<rparr>)
      \<longleftrightarrow> length [manifestDesc\<lparr>MediaType := ZarfLayerMediaTypeBlob remoteTwo\<rparr>, layerPresent]
            < 1 + length [layerAbsent, layerPresent]"
    by blast
  from t opsSpec_facts have b: "returnedError (LoadPackage remoteTwo opsSpec False bundleA) = None"
    by blast
  show ?thesis
    by (intro conjI h remoteTwo_download opsSpec_facts b strict_validation_fails)
       (use a in simp_all)
qed

text \<open>
  C5 (as the code has it). In every run of \<open>LoadPackage\<close> the component filter is applied
  before the integrity validation, never after it; when the filter reports an error,
  \<open>LoadPackage\<close> returns that error with the package as the filter left it, and the
  validation is not called at all.
\<close>

theorem filter_is_applied_before_validation:
  assumes "LoadPackage rm ops u r = (r2, tr, pkg, err)"
  shows "\<not> precedes isValidate isFilterApply tr
       \<and> (list_ex isValidate tr \<longrightarrow> precedes isFilterApply isValidate tr)
       \<and> (\<forall>p0 e. snd (snd (snd (downloadPkgFromRemoteBundle rm r))) = None
                  \<and> ReadYaml ops = Inr p0 \<and> snd (filterApply ops p0) = Some e
             \<longrightarrow> err = Some (Error e) \<and> pkg = p0\<lparr>Components := fst (filterApply ops p0)\<rparr>
                 \<and> list_ex isFilterApply tr \<and> \<not> list_ex isValidate tr)"
proof -
  from LoadPackage_trace [OF assms(1)] obtain ev tail where
    tr: "tr = Download # map Send ev @ tail"
    and tail: "traceTail ops (isPartial r2) err tail"
    by blast
  have sends: "\<forall>s \<in> set (map Send ev). \<not> isValidate s" "\<forall>s \<in> set (map Send ev). \<not> isFilterApply s"
    by auto
  have a: "\<not> precedes isValidate isFilterApply tr"
    using tail sends(1) unfolding tr by (auto simp add: traceTail_def list_ex_iff)
  have b: "list_ex isValidate tr \<longrightarrow> precedes isFilterApply isValidate tr"
    using tail sends unfolding tr by (auto simp add: traceTail_def list_ex_iff)
  have c: "err = Some (Error e) \<and> pkg = p0\<lparr>Components := fst (filterApply ops p0)\<rparr>
           \<and> list_ex isFilterApply tr \<and> \<not> list_ex isValidate tr"
    if "snd (snd (snd (downloadPkgFromRemoteBundle rm r))) = None"
      "ReadYaml ops = Inr p0" "snd (filterApply ops p0) = Some e" for p0 e
    using LoadPackage_filter_failed [OF that, of u] assms(1) by (auto simp add: list_ex_iff)
  show ?thesis
    using a b c by blast
qed

theorem filter_is_applied_before_validation_witness:
  "list_ex isValidate (calls (LoadPackage remoteTwo opsOk False bundleA))
   \<and> precedes isFilterApply isValidate (calls (LoadPackage remoteTwo opsOk False bundleA))
   \<and> \<not> precedes isValidate isFilterApply (calls (LoadPackage remoteTwo opsOk False bundleA))
   \<and> snd (snd (snd (downloadPkgFromRemoteBundle remoteTwo bundleA))) = None
   \<and> ReadYaml opsBothFail = Inr packageA
   \<and> snd (filterApply opsBothFail packageA) = Some ''component not found''
   \<and> returnedError (LoadPackage remoteTwo opsBothFail False bundleA)
       = Some (Error ''component not found'')
   \<and> \<not> list_ex isValidate (calls (LoadPackage remoteTwo opsBothFail False bundleA))"
proof -
  have h: "list_ex isValidate (fst (snd (LoadPackage remoteTwo opsOk False bundleA)))"
    by (simp add: remoteTwo_LoadPackage)
  have f: "snd (snd (snd (downloadPkgFromRemoteBundle remoteTwo bundleA))) = None"
    "ReadYaml opsBothFail = Inr packageA"
    "snd (filterApply opsBothFail packageA) = Some ''component not found''"
    by (simp_all add: remoteTwo_download opsBothFail_def opsOk_def)
  from filter_is_applied_before_validation [OF LoadPackage_collapse, of remoteTwo opsOk False bundleA] h
  have a: "precedes isFilterApply isValidate (fst (snd (LoadPackage remoteTwo opsOk False bundleA)))"
      "\<not> precedes isValidate isFilterApply (fst (snd (LoadPackage remoteTwo opsOk False bundleA)))"
    by blast+
  from filter_is_applied_before_validation [OF LoadPackage_collapse, of remoteTwo opsBothFail False bundleA] f
  have b: "snd (snd (snd (LoadPackage remoteTwo opsBothFail False bundleA)))
             = Some (Error ''component not found'')"
      "\<not> list_ex isValidate (fst (snd (LoadPackage remoteTwo opsBothFail False bundleA)))"
    by blast+
  show ?thesis
    using h f a b by (simp add: calls_def returnedError_def)
qed

text \<open>
  The calls of a run in order, the filter before the validation; and a run where both
  would fail returns the error of the filter without calling the validation.
\<close>

theorem validation_follows_filter:
  "calls (LoadPackage remoteTwo opsOk False bundleA)
     = [Download, Send (Verifying (Some 100)), Send (Downloading (Some 25)),
        Send (Downloading (Some 125)), ReadYamlStep, FilterApply, Send (TotalComponents 2),
        SetFromLayers [manifestDesc\<lparr>MediaType := ZarfLayerMediaTypeBlob remoteTwo\<rparr>, layerPresent],
        Validate ''abc'' True, NamespaceOverrides]
   \<and> \<not> precedes isValidate isFilterApply (calls (LoadPackage remoteTwo opsOk False bundleA))
   \<and> ValidatePackageIntegrity opsBothFail [] ''abc'' True = Some ''checksum mismatch''
   \<and> returnedError (LoadPackage remoteTwo opsBothFail False bundleA)
       = Some (Error ''component not found'')
   \<and> \<not> list_ex isValidate (calls (LoadPackage remoteTwo opsBothFail False bundleA))"
  by (simp add: remoteTwo_LoadPackage remoteTwo_LoadPackage_fail calls_def returnedError_def)
     (simp add: opsBothFail_def opsOk_def)

section \<open>A deploy that fails\<close>

lemma closure_counts:
  "DeployResult b = Some e \<Longrightarrow> clearPathsCalls (deployCmd_closure b w) = Suc (clearPathsCalls w)"
  "DeployResult b = Some e \<Longrightarrow> deployCalls (deployCmd_closure b w) = Suc (deployCalls w)"
  by (simp_all add: deployCmd_closure_def ClearPaths_def clearPathsCalls_def deployCalls_def)

lemma counts_launched:
  "clearPathsCalls (w\<lparr>launched := n\<rparr>) = clearPathsCalls w"
  "deployCalls (w\<lparr>launched := n\<rparr>) = deployCalls w"
  by (simp_all add: clearPathsCalls_def deployCalls_def)

lemma Program_Run_counts:
  assumes "DeployResult b = Some e"
    and "Program_Run b sched s w = (out, w')"
  shows "clearPathsCalls w' + deployCalls w = clearPathsCalls w + deployCalls w'"
  using assms
proof (induction b sched s w rule: Program_Run.induct)
  case (1 b s w)
  then show ?case by simp
next
  case (2 b rest s w)
  show ?case
  proof (cases "0 < launched w")
    case True
    with 2 have "clearPathsCalls w' + deployCalls (deployCmd_closure b (w\<lparr>launched := launched w - 1\<rparr>))
        = clearPathsCalls (deployCmd_closure b (w\<lparr>launched := launched w - 1\<rparr>)) + deployCalls w'"
      by simp
    then show ?thesis
      by (simp add: closure_counts [OF "2.prems"(1)] counts_launched)
  next
    case False
    with 2 show ?thesis by simp
  qed
next
  case (3 b cl msg rest s w)
  show ?case
  proof (cases "Update cl (fatalChan w \<noteq> None) msg s")
    case (Inl p)
    with 3 show ?thesis by simp
  next
    case (Inr r)
    define w2 where "w2 = (if hasCmd DeployCmd (snd r)
                           then w\<lparr>fatalChan := None, launched := Suc (launched w)\<rparr>
                           else w\<lparr>fatalChan := None\<rparr>)"
    have same: "clearPathsCalls w2 = clearPathsCalls w" "deployCalls w2 = deployCalls w"
      by (simp_all add: w2_def clearPathsCalls_def deployCalls_def)
    show ?thesis
    proof (cases "hasCmd Quit (snd r)")
      case True
      with "3.prems"(2) Inr have "w' = w2" by (simp add: w2_def Let_def split: if_splits)
      then show ?thesis using same by simp
    next
      case False
      with "3.prems"(2) Inr have run: "Program_Run b rest (fst r) w2 = (out, w')"
        by (simp add: w2_def Let_def split: if_splits)
      have "clearPathsCalls w' + deployCalls w2 = clearPathsCalls w2 + deployCalls w'"
        using "3.IH" [OF Inr refl refl False "3.prems"(1)] run by (simp add: w2_def split: if_splits)
      then show ?thesis using same by simp
    qed
  qed
qed

lemma scheduleFail_run:
  "deployCmd_Run False True [] clientFails scheduleFail
     = Returned \<lparr>log = [CallDeploy, CallClearPaths, CallClearPaths], fatalChan = None, launched = 0\<rparr>"
  by (simp add: deployCmd_Run_def scheduleFail_def clientFails_def InitModel_def Update_def
      onOperation_def onString_def onTick_def tickProgress_def onFatal_def Split_def index_def
      inRange_def Atoi_def digitVal_def GetDeployedPackage_clusterEmpty deployCmd_closure_def
      ClearPaths_def SetPercent_def progress_New_def spinner_New_def spinner_Update_def Let_def)


lemma without_tea_failed_deploy_clears_paths_once:
  "deployCmd_Run True confirm yaml clientFails sched
     = Exited \<lparr>log = [CallPreDeployValidation, CallConfirmBundleDeploy, CallDeploy, CallClearPaths],
               fatalChan = None, launched = 0\<rparr>"
  by (simp add: deployCmd_Run_def deployWithoutTea_def clientFails_def ClearPaths_def)

text \<open>
  C6. When \<open>Deploy\<close> was called once and returned an error and the command returns
  after the program quit, \<open>ClearPaths\<close> has been called twice: by the deploy closure
  before its send on the fatal channel, and by the deferred call of the command.
\<close>

theorem failed_deploy_clears_paths_twice:
  assumes "DeployResult b = Some e"
    and "deployCmd_Run False confirm yaml b sched = Returned w"
    and "deployCalls w = 1"
  shows "clearPathsCalls w = 2"
proof -
  from assms(2) obtain s w1 where
    run: "Program_Run b sched (InitModel confirm yaml, False) \<lparr>log = [], fatalChan = None, launched = 0\<rparr>
            = (Quitted s, w1)" and w: "w = ClearPaths w1"
    by (auto simp add: deployCmd_Run_def split: prod.splits outcome.splits)
  from Program_Run_counts [OF assms(1) run]
  have "clearPathsCalls w1 = deployCalls w1"
    by (simp add: clearPathsCalls_def deployCalls_def)
  moreover have "deployCalls w = deployCalls w1" "clearPathsCalls w = Suc (clearPathsCalls w1)"
    by (simp_all add: w ClearPaths_def clearPathsCalls_def deployCalls_def)
  ultimately show ?thesis
    using assms(3) by simp
qed

theorem failed_deploy_clears_paths_twice_witness:
  "DeployResult clientFails = Some ''boom''
   \<and> deployCmd_Run False True [] clientFails scheduleFail
       = Returned \<lparr>log = [CallDeploy, CallClearPaths, CallClearPaths], fatalChan = None,
                   launched = 0\<rparr>
   \<and> deployCalls \<lparr>log = [CallDeploy, CallClearPaths, CallClearPaths], fatalChan = None,
                    launched = 0\<rparr> = 1
   \<and> clearPathsCalls \<lparr>log = [CallDeploy, CallClearPaths, CallClearPaths], fatalChan = None,
                        launched = 0\<rparr> = 2"
proof -
  have h1: "DeployResult clientFails = Some ''boom''"
    by (simp add: clientFails_def)
  have h3: "deployCalls \<lparr>log = [CallDeploy, CallClearPaths, CallClearPaths], fatalChan = None,
                          launched = 0\<rparr> = 1"
    by (simp add: deployCalls_def)
  from failed_deploy_clears_paths_twice [OF h1 scheduleFail_run h3] h1 h3 scheduleFail_run
  show ?thesis by simp
qed

end
